theory Spec2Isabelle
  imports Main "HOL-Library.Sublist"
begin

section \<open>JavaScript strings and values\<close>

text \<open>
  Strings are \<open>char list\<close>. The case conversions are the ASCII part of
  \<open>String.prototype.toLowerCase\<close> / \<open>toUpperCase\<close>: the 26 letters are mapped and
  every other character is kept.
\<close>

definition startsWith :: "string \<Rightarrow> string \<Rightarrow> bool" where
  "startsWith s p = prefix p s"

definition endsWith :: "string \<Rightarrow> string \<Rightarrow> bool" where
  "endsWith s p = suffix p s"

definition toLowerChar :: "char \<Rightarrow> char" where
  "toLowerChar c =
     (case map_of (zip ''ABCDEFGHIJKLMNOPQRSTUVWXYZ'' ''abcdefghijklmnopqrstuvwxyz'') c of
        None \<Rightarrow> c | Some d \<Rightarrow> d)"

definition toUpperChar :: "char \<Rightarrow> char" where
  "toUpperChar c =
     (case map_of (zip ''abcdefghijklmnopqrstuvwxyz'' ''ABCDEFGHIJKLMNOPQRSTUVWXYZ'') c of
        None \<Rightarrow> c | Some d \<Rightarrow> d)"

definition toLowerCase :: "string \<Rightarrow> string" where
  "toLowerCase s = map toLowerChar s"

definition toUpperCase :: "string \<Rightarrow> string" where
  "toUpperCase s = map toUpperChar s"

text \<open>
  \<open>s.split(sep)\<close> for a one-character separator or a character class: the string is cut
  at every separator character; the empty string gives one empty piece.
\<close>

fun split_where :: "(char \<Rightarrow> bool) \<Rightarrow> string \<Rightarrow> string list" where
  "split_where sep [] = [[]]"
| "split_where sep (x # xs) =
     (if sep x then [] # split_where sep xs
      else (case split_where sep xs of
              [] \<Rightarrow> [[x]]
            | w # ws \<Rightarrow> (x # w) # ws))"

definition split_on :: "char \<Rightarrow> string \<Rightarrow> string list" where
  "split_on c s = split_where (\<lambda>x. x = c) s"

text \<open>\<open>pieces.join(sep)\<close>.\<close>

fun join_with :: "string \<Rightarrow> string list \<Rightarrow> string" where
  "join_with sep [] = []"
| "join_with sep [w] = w"
| "join_with sep (w # v # ws) = w @ sep @ join_with sep (v # ws)"

text \<open>\<open>word.charAt(0).toUpperCase() + word.slice(1)\<close>.\<close>

definition capitalize :: "string \<Rightarrow> string" where
  "capitalize word = (case word of [] \<Rightarrow> [] | c # cs \<Rightarrow> toUpperChar c # cs)"

text \<open>
  A value of type \<open>string | null | undefined\<close> is a \<open>string option\<close>. It is truthy when
  it is a non-empty string; \<open>a || b\<close> is \<open>a\<close> when \<open>a\<close> is truthy and \<open>b\<close> otherwise.
\<close>

definition truthy :: "string option \<Rightarrow> bool" where
  "truthy v = (case v of None \<Rightarrow> False | Some s \<Rightarrow> s \<noteq> [])"

definition js_or :: "string option \<Rightarrow> string option \<Rightarrow> string option" where
  "js_or a b = (if truthy a then a else b)"

text \<open>
  A thrown value: an \<open>Error\<close> instance with its message, or anything else. The handlers'
  \<open>catch\<close> blocks compute \<open>e instanceof Error ? e.message : 'Unknown error'\<close>.
\<close>

datatype js_exn = JsError string | JsOther

definition error_message :: "js_exn \<Rightarrow> string" where
  "error_message e = (case e of JsError m \<Rightarrow> m | JsOther \<Rightarrow> ''Unknown error'')"


section \<open>The model catalog\<close>

datatype ollama_mode = ModeLocal | ModeCloud

record ModelConfig =
  ident :: string
  name :: string
  provider :: string
  model :: string
  description :: string
  available :: bool
  ollamaMode :: "ollama_mode option"

definition OLLAMA_CACHE_TTL :: int where
  "OLLAMA_CACHE_TTL = 5 * 60 * 1000"

definition AVAILABLE_MODELS :: "ModelConfig list" where
  "AVAILABLE_MODELS =
   [\<lparr>ident = ''claude-opus-4-5-20251101'', name = ''Claude Opus 4.5'', provider = ''anthropic'',
     model = ''claude-opus-4-5-20251101'',
     description = ''Premium model with maximum intelligence'',
     available = True, ollamaMode = None\<rparr>,
    \<lparr>ident = ''claude-sonnet-4-5-20250929'', name = ''Claude Sonnet 4.5'', provider = ''anthropic'',
     model = ''claude-sonnet-4-5-20250929'',
     description = ''Best balance of intelligence, speed, and cost for agents'',
     available = True, ollamaMode = None\<rparr>,
    \<lparr>ident = ''claude-haiku-4-5-20251001'', name = ''Claude Haiku 4.5'', provider = ''anthropic'',
     model = ''claude-haiku-4-5-20251001'',
     description = ''Fastest model with near-frontier intelligence'',
     available = True, ollamaMode = None\<rparr>,
    \<lparr>ident = ''claude-opus-4-1-20250805'', name = ''Claude Opus 4.1'', provider = ''anthropic'',
     model = ''claude-opus-4-1-20250805'',
     description = ''Previous generation premium model with extended thinking'',
     available = True, ollamaMode = None\<rparr>,
    \<lparr>ident = ''claude-sonnet-4-20250514'', name = ''Claude Sonnet 4'', provider = ''anthropic'',
     model = ''claude-sonnet-4-20250514'',
     description = ''Fast and capable previous generation model'',
     available = True, ollamaMode = None\<rparr>,
    \<lparr>ident = ''gpt-5.2'', name = ''GPT-5.2'', provider = ''openai'', model = ''gpt-5.2'',
     description = ''Latest flagship with enhanced coding and agentic capabilities'',
     available = True, ollamaMode = None\<rparr>,
    \<lparr>ident = ''gpt-5.1'', name = ''GPT-5.1'', provider = ''openai'', model = ''gpt-5.1'',
     description = ''Advanced reasoning and robust performance'',
     available = True, ollamaMode = None\<rparr>,
    \<lparr>ident = ''o3'', name = ''o3'', provider = ''openai'', model = ''o3'',
     description = ''Advanced reasoning for complex problem-solving'',
     available = True, ollamaMode = None\<rparr>,
    \<lparr>ident = ''o3-mini'', name = ''o3 Mini'', provider = ''openai'', model = ''o3-mini'',
     description = ''Cost-effective reasoning with faster response times'',
     available = True, ollamaMode = None\<rparr>,
    \<lparr>ident = ''o4-mini'', name = ''o4 Mini'', provider = ''openai'', model = ''o4-mini'',
     description = ''Fast, efficient reasoning model succeeding o3'',
     available = True, ollamaMode = None\<rparr>,
    \<lparr>ident = ''o1'', name = ''o1'', provider = ''openai'', model = ''o1'',
     description = ''Premium reasoning for research, coding, math and science'',
     available = True, ollamaMode = None\<rparr>,
    \<lparr>ident = ''gpt-4.1'', name = ''GPT-4.1'', provider = ''openai'', model = ''gpt-4.1'',
     description = ''Strong instruction-following with 1M context window'',
     available = True, ollamaMode = None\<rparr>,
    \<lparr>ident = ''gpt-4.1-mini'', name = ''GPT-4.1 Mini'', provider = ''openai'',
     model = ''gpt-4.1-mini'',
     description = ''Faster, smaller version balancing performance and efficiency'',
     available = True, ollamaMode = None\<rparr>,
    \<lparr>ident = ''gpt-4.1-nano'', name = ''GPT-4.1 Nano'', provider = ''openai'',
     model = ''gpt-4.1-nano'',
     description = ''Most cost-efficient for lighter tasks'',
     available = True, ollamaMode = None\<rparr>,
    \<lparr>ident = ''gpt-4o'', name = ''GPT-4o'', provider = ''openai'', model = ''gpt-4o'',
     description = ''Versatile model for text generation and comprehension'',
     available = True, ollamaMode = None\<rparr>,
    \<lparr>ident = ''gpt-4o-mini'', name = ''GPT-4o Mini'', provider = ''openai'',
     model = ''gpt-4o-mini'',
     description = ''Cost-efficient variant with faster response times'',
     available = True, ollamaMode = None\<rparr>,
    \<lparr>ident = ''gemini-3-pro-preview'', name = ''Gemini 3 Pro Preview'', provider = ''google'',
     model = ''gemini-3-pro-preview'',
     description = ''State-of-the-art reasoning and multimodal understanding'',
     available = True, ollamaMode = None\<rparr>,
    \<lparr>ident = ''gemini-2.5-pro'', name = ''Gemini 2.5 Pro'', provider = ''google'',
     model = ''gemini-2.5-pro'',
     description = ''High-capability model for complex reasoning and coding'',
     available = True, ollamaMode = None\<rparr>,
    \<lparr>ident = ''gemini-2.5-flash'', name = ''Gemini 2.5 Flash'', provider = ''google'',
     model = ''gemini-2.5-flash'',
     description = ''Lightning-fast with balance of intelligence and latency'',
     available = True, ollamaMode = None\<rparr>,
    \<lparr>ident = ''gemini-2.5-flash-lite'', name = ''Gemini 2.5 Flash Lite'', provider = ''google'',
     model = ''gemini-2.5-flash-lite'',
     description = ''Fast, low-cost, high-performance model'',
     available = True, ollamaMode = None\<rparr>,
    \<lparr>ident = ''gpt-oss:120b-cloud'', name = ''GPT-OSS 120B Cloud'', provider = ''ollama-cloud'',
     model = ''gpt-oss:120b-cloud'',
     description = ''Open-source GPT model with 120B parameters on cloud'',
     available = True, ollamaMode = Some ModeCloud\<rparr>,
    \<lparr>ident = ''gpt-oss:20b-cloud'', name = ''GPT-OSS 20B Cloud'', provider = ''ollama-cloud'',
     model = ''gpt-oss:20b-cloud'',
     description = ''Open-source GPT model with 20B parameters on cloud'',
     available = True, ollamaMode = Some ModeCloud\<rparr>,
    \<lparr>ident = ''qwen3-coder:480b-cloud'', name = ''Qwen3 Coder 480B Cloud'',
     provider = ''ollama-cloud'', model = ''qwen3-coder:480b-cloud'',
     description = ''Specialized coding model with 480B parameters on cloud'',
     available = True, ollamaMode = Some ModeCloud\<rparr>,
    \<lparr>ident = ''deepseek-v3.1:671b-cloud'', name = ''DeepSeek v3.1 671B Cloud'',
     provider = ''ollama-cloud'', model = ''deepseek-v3.1:671b-cloud'',
     description = ''Advanced model with 671B parameters on cloud'',
     available = True, ollamaMode = Some ModeCloud\<rparr>,
    \<lparr>ident = ''qwen3-vl:235b-cloud'', name = ''Qwen3 VL 235B Cloud'',
     provider = ''ollama-cloud'', model = ''qwen3-vl:235b-cloud'',
     description = ''Vision-language model with 235B parameters on cloud'',
     available = True, ollamaMode = Some ModeCloud\<rparr>]"

subsection \<open>Display names\<close>

text \<open>
  \<open>formatModelName\<close>: \<open>name.replace(/:cloud$/, '')\<close>, then split at \<open>-\<close>, \<open>_\<close>, \<open>:\<close>,
  capitalize each piece and join with a blank.
\<close>

definition formatModelName :: "string \<Rightarrow> string" where
  "formatModelName nm =
     (let withoutSuffix = (if endsWith nm '':cloud'' then take (length nm - 6) nm else nm)
      in join_with '' ''
           (map capitalize
              (split_where (\<lambda>c. c = CHR ''-'' \<or> c = CHR ''_'' \<or> c = CHR '':'') withoutSuffix)))"

text \<open>
  \<open>formatLocalModelName\<close>: \<open>parts[0] || name\<close> is the text before the first colon (the
  whole name when that text is empty), \<open>parts[1] || ''\<close> the text between the first and
  the second colon.
\<close>

definition formatLocalModelName :: "string \<Rightarrow> string" where
  "formatLocalModelName nm =
     (let parts = split_on CHR '':'' nm;
          modelName = (case parts of [] \<Rightarrow> nm | p # _ \<Rightarrow> if p \<noteq> [] then p else nm);
          tag = (case parts of _ # t # _ \<Rightarrow> t | _ \<Rightarrow> []);
          formattedName =
            join_with '' ''
              (map capitalize
                 (split_where (\<lambda>c. c = CHR ''-'' \<or> c = CHR ''_'' \<or> c = CHR ''.'') modelName))
      in if tag \<noteq> [] then formattedName @ '' ('' @ toUpperCase tag @ '')'' else formattedName)"

subsection \<open>Tool-calling capability\<close>

definition supportsToolCalling :: "string \<Rightarrow> bool" where
  "supportsToolCalling modelName =
     (let baseName = toLowerCase (hd (split_on CHR '':'' modelName)) in
      if startsWith baseName ''llama3.1'' \<or> startsWith baseName ''llama3.2''
           \<or> startsWith baseName ''llama3.3'' then True
      else if startsWith baseName ''qwen3'' \<or> startsWith baseName ''qwen2.5''
           \<or> startsWith baseName ''qwen2'' \<or> startsWith baseName ''qwq'' then True
      else if baseName = ''mistral'' \<or> startsWith baseName ''mistral-small''
           \<or> startsWith baseName ''mistral-nemo'' \<or> startsWith baseName ''ministral-3'' then True
      else if startsWith baseName ''deepseek-r1'' then True
      else if baseName = ''functiongemma'' then True
      else if startsWith baseName ''gpt-oss'' then True
      else if startsWith baseName ''devstral-small-2'' \<or> startsWith baseName ''devstral-2'' then True
      else if startsWith baseName ''smollm2'' then True
      else False)"


subsection \<open>Network and cache state\<close>

text \<open>
  The two module-level caches and their timestamps are the catalog state. A call to
  \<open>fetch\<close> is recorded as a \<open>request\<close>; its outcome is an input of the model: the promise
  rejects (\<open>Inl\<close>) or yields a response with its \<open>ok\<close> flag and the outcome of
  \<open>response.json()\<close>.
\<close>

record catalog =
  ollamaModelsCache :: "ModelConfig list"
  ollamaModelsCacheTime :: int
  ollamaLocalModelsCache :: "ModelConfig list"
  ollamaLocalModelsCacheTime :: int

datatype request = Fetch string

record 'd response =
  ok :: bool
  json :: "js_exn + 'd"

text \<open>
  An entry of the cloud listing with the four properties the transformation reads, and
  the three shapes of the body the code tells apart (\<open>data.data\<close>, \<open>data.models\<close>, a bare
  array; anything else gives no models).
\<close>

record cloud_entry =
  entry_id :: "string option"
  entry_name :: "string option"
  entry_model :: "string option"
  entry_description :: "string option"

datatype cloud_data =
    DataField "cloud_entry list"
  | ModelsField "cloud_entry list"
  | BareArray "cloud_entry list"
  | OtherShape

record cloud_net =
  v1_models :: "js_exn + cloud_data response"
  api_tags :: "js_exn + cloud_data response"

text \<open>
  The local listing is \<open>data.models\<close> (absent: \<open>None\<close>); of each entry only \<open>name\<close> is
  read, so an entry is its \<open>name\<close> property (\<open>None\<close> when undefined).
\<close>

type_synonym local_data = "string option list option"

text \<open>\<open>Array.prototype.map\<close> with a callback that may throw: the first throw aborts.\<close>

fun collect :: "(js_exn + 'a) list \<Rightarrow> js_exn + 'a list" where
  "collect [] = Inr []"
| "collect (Inl e # rs) = Inl e"
| "collect (Inr v # rs) = (case collect rs of Inl e \<Rightarrow> Inl e | Inr vs \<Rightarrow> Inr (v # vs))"

subsection \<open>Cloud discovery\<close>

text \<open>
  The callback of \<open>models.map\<close> in \<open>fetchOllamaCloudModels\<close>. When \<open>id\<close>, \<open>name\<close> and
  \<open>model\<close> are all missing, \<open>modelName\<close> is undefined and \<open>formatModelName\<close> throws a
  TypeError on \<open>name.replace\<close>.
\<close>

definition cloudModelOf :: "cloud_entry \<Rightarrow> js_exn + ModelConfig" where
  "cloudModelOf m =
     (let modelId = js_or (js_or (entry_id m) (entry_name m)) (entry_model m);
          modelName = js_or (js_or (entry_name m) (entry_id m)) modelId
      in case (modelId, modelName) of
           (Some i, Some n) \<Rightarrow>
             Inr \<lparr>ident = i, name = formatModelName n, provider = ''ollama-cloud'', model = i,
                  description =
                    (if truthy (entry_description m) then the (entry_description m)
                     else ''Ollama Cloud model: '' @ n),
                  available = True, ollamaMode = Some ModeCloud\<rparr>
         | _ \<Rightarrow> Inl (JsError ''TypeError''))"

text \<open>The two \<open>fetch\<close> calls: \<open>/v1/models\<close> first, \<open>/api/tags\<close> when that is not ok.\<close>

definition cloud_requests :: "cloud_net \<Rightarrow> request list \<times> (js_exn + cloud_data response)" where
  "cloud_requests net =
     (case v1_models net of
        Inl e \<Rightarrow> ([Fetch ''https://ollama.com/v1/models''], Inl e)
      | Inr response \<Rightarrow>
          if \<not> ok response then
            ([Fetch ''https://ollama.com/v1/models'', Fetch ''https://ollama.com/api/tags''],
             api_tags net)
          else ([Fetch ''https://ollama.com/v1/models''], Inr response))"

definition cloud_cache_fresh :: "int \<Rightarrow> catalog \<Rightarrow> bool" where
  "cloud_cache_fresh now c =
     (length (ollamaModelsCache c) > 0 \<and> now - ollamaModelsCacheTime c < OLLAMA_CACHE_TTL)"

text \<open>
  \<open>fetchOllamaCloudModels\<close>, given the stored key (\<open>getApiKey('ollama-cloud')\<close>), the
  clock (\<open>Date.now()\<close>) and the network. It returns the models, the requests it made and
  the new catalog state. Every throw inside the \<open>try\<close> ends in \<open>return []\<close>.
\<close>

definition fetchOllamaCloudModels ::
  "string option \<Rightarrow> int \<Rightarrow> cloud_net \<Rightarrow> catalog \<Rightarrow> ModelConfig list \<times> request list \<times> catalog" where
  "fetchOllamaCloudModels apiKey now net c =
     (if \<not> truthy apiKey then ([], [], c)
      else if cloud_cache_fresh now c then (ollamaModelsCache c, [], c)
      else
        (case cloud_requests net of
           (reqs, Inl e) \<Rightarrow> ([], reqs, c)
         | (reqs, Inr response) \<Rightarrow>
             if \<not> ok response then ([], reqs, c)
             else
               (case json response of
                  Inl e \<Rightarrow> ([], reqs, c)
                | Inr data \<Rightarrow>
                    (let models =
                           (case data of
                              DataField ms \<Rightarrow> ms
                            | ModelsField ms \<Rightarrow> ms
                            | BareArray ms \<Rightarrow> ms
                            | OtherShape \<Rightarrow> [])
                     in case collect (map cloudModelOf models) of
                          Inl e \<Rightarrow> ([], reqs, c)
                        | Inr ollamaModels \<Rightarrow>
                            (ollamaModels, reqs,
                             c\<lparr>ollamaModelsCache := ollamaModels,
                               ollamaModelsCacheTime := now\<rparr>)))))"

subsection \<open>Local discovery\<close>

text \<open>
  The body of the \<open>try\<close> after the response is parsed: drop the \<open>:cloud\<close> names (a
  missing name throws on \<open>model.name.endsWith\<close>), build the entries, keep those that
  support tool calling.
\<close>

definition localModelOf :: "string \<Rightarrow> ModelConfig" where
  "localModelOf modelId =
     \<lparr>ident = modelId, name = formatLocalModelName modelId, provider = ''ollama-local'',
      model = modelId,
      description = ''Local Ollama model: '' @ formatLocalModelName modelId,
      available = True, ollamaMode = Some ModeLocal\<rparr>"

definition localModelsOf :: "string option list \<Rightarrow> js_exn + ModelConfig list" where
  "localModelsOf models =
     (case collect (map (\<lambda>n. case n of None \<Rightarrow> Inl (JsError ''TypeError'')
                                      | Some s \<Rightarrow> Inr s) models) of
        Inl e \<Rightarrow> Inl e
      | Inr names \<Rightarrow>
          (let allModels = map localModelOf (filter (\<lambda>n. \<not> endsWith n '':cloud'') names)
           in Inr (filter (\<lambda>m. supportsToolCalling (ident m)) allModels)))"

definition local_cache_fresh :: "int \<Rightarrow> catalog \<Rightarrow> bool" where
  "local_cache_fresh now c =
     (length (ollamaLocalModelsCache c) > 0
      \<and> now - ollamaLocalModelsCacheTime c < OLLAMA_CACHE_TTL)"

text \<open>
  \<open>fetchOllamaLocalModels\<close>, given the clock, the configured endpoint and the outcome of
  the one \<open>fetch\<close> (a timeout is a rejected promise).
\<close>

definition fetchOllamaLocalModels ::
  "int \<Rightarrow> string \<Rightarrow> js_exn + local_data response \<Rightarrow> catalog
     \<Rightarrow> ModelConfig list \<times> request list \<times> catalog" where
  "fetchOllamaLocalModels now endpoint net c =
     (if local_cache_fresh now c then (ollamaLocalModelsCache c, [], c)
      else
        (case net of
           Inl e \<Rightarrow> ([], [Fetch (endpoint @ ''/api/tags'')], c)
         | Inr response \<Rightarrow>
             if \<not> ok response then ([], [Fetch (endpoint @ ''/api/tags'')], c)
             else
               (case json response of
                  Inl e \<Rightarrow> ([], [Fetch (endpoint @ ''/api/tags'')], c)
                | Inr data \<Rightarrow>
                    (case localModelsOf (case data of None \<Rightarrow> [] | Some ms \<Rightarrow> ms) of
                       Inl e \<Rightarrow> ([], [Fetch (endpoint @ ''/api/tags'')], c)
                     | Inr localModels \<Rightarrow>
                         (localModels, [Fetch (endpoint @ ''/api/tags'')],
                          c\<lparr>ollamaLocalModelsCache := localModels,
                            ollamaLocalModelsCacheTime := now\<rparr>)))))"

subsection \<open>The handler \<open>models:list\<close>\<close>

text \<open>
  The environment of one call: the credential store, the two clock readings, the local
  endpoint and the outcomes of the network calls.
\<close>

record env =
  getApiKey :: "string \<Rightarrow> string option"
  hasApiKey :: "string \<Rightarrow> bool"
  now_cloud :: int
  now_local :: int
  localEndpoint :: string
  cloudNet :: cloud_net
  localNet :: "js_exn + local_data response"

definition staticModels :: "ModelConfig list \<Rightarrow> ModelConfig list \<Rightarrow> ModelConfig list" where
  "staticModels ollamaCloudModels ollamaLocalModels =
     (if length ollamaCloudModels > 0 \<or> length ollamaLocalModels > 0
      then filter (\<lambda>m. provider m \<noteq> ''ollama-local'' \<and> provider m \<noteq> ''ollama-cloud'')
             AVAILABLE_MODELS
      else AVAILABLE_MODELS)"

definition withAvailability :: "(string \<Rightarrow> bool) \<Rightarrow> ModelConfig \<Rightarrow> ModelConfig" where
  "withAvailability hasKey m =
     m\<lparr>available := (if ollamaMode m = Some ModeLocal then True else hasKey (provider m))\<rparr>"

definition mergeModels ::
  "(string \<Rightarrow> bool) \<Rightarrow> ModelConfig list \<Rightarrow> ModelConfig list \<Rightarrow> ModelConfig list" where
  "mergeModels hasKey ollamaCloudModels ollamaLocalModels =
     map (withAvailability hasKey)
       (staticModels ollamaCloudModels ollamaLocalModels @ ollamaCloudModels @ ollamaLocalModels)"

definition models_list :: "env \<Rightarrow> catalog \<Rightarrow> ModelConfig list \<times> request list \<times> catalog" where
  "models_list e c =
     (case fetchOllamaCloudModels (getApiKey e ''ollama-cloud'') (now_cloud e) (cloudNet e) c of
        (ollamaCloudModels, reqs1, c1) \<Rightarrow>
          (case fetchOllamaLocalModels (now_local e) (localEndpoint e) (localNet e) c1 of
             (ollamaLocalModels, reqs2, c2) \<Rightarrow>
               (mergeModels (hasApiKey e) ollamaCloudModels ollamaLocalModels,
                reqs1 @ reqs2, c2)))"

text \<open>\<open>models:refreshOllama\<close> and \<open>models:refreshOllamaLocal\<close>: reset the timestamp, fetch, count.\<close>

definition models_refreshOllama ::
  "string option \<Rightarrow> int \<Rightarrow> cloud_net \<Rightarrow> catalog \<Rightarrow> nat \<times> request list \<times> catalog" where
  "models_refreshOllama apiKey now net c =
     (case fetchOllamaCloudModels apiKey now net (c\<lparr>ollamaModelsCacheTime := 0\<rparr>) of
        (models, reqs, c') \<Rightarrow> (length models, reqs, c'))"

definition models_refreshOllamaLocal ::
  "int \<Rightarrow> string \<Rightarrow> js_exn + local_data response \<Rightarrow> catalog \<Rightarrow> nat \<times> request list \<times> catalog" where
  "models_refreshOllamaLocal now endpoint net c =
     (case fetchOllamaLocalModels now endpoint net (c\<lparr>ollamaLocalModelsCacheTime := 0\<rparr>) of
        (models, reqs, c') \<Rightarrow> (length models, reqs, c'))"


section \<open>POSIX paths\<close>

text \<open>
  The functions of Node's \<open>path\<close> module the handlers call, in its POSIX flavour.
  \<open>normalizeString\<close> walks the segments between slashes: empty segments and \<open>.\<close> are
  dropped, \<open>..\<close> removes the segment before it (and is kept, when nothing can be removed,
  only if the path is relative), every other segment is kept.
\<close>

fun normalize_segments :: "bool \<Rightarrow> string list \<Rightarrow> string list \<Rightarrow> string list" where
  "normalize_segments allowAboveRoot res [] = res"
| "normalize_segments allowAboveRoot res (seg # segs) =
     (if seg = [] \<or> seg = ''.'' then normalize_segments allowAboveRoot res segs
      else if seg = ''..'' then
        (if res \<noteq> [] \<and> last res \<noteq> ''..''
         then normalize_segments allowAboveRoot (butlast res) segs
         else if allowAboveRoot then normalize_segments allowAboveRoot (res @ [''..'']) segs
         else normalize_segments allowAboveRoot res segs)
      else normalize_segments allowAboveRoot (res @ [seg]) segs)"

definition normalizeString :: "string \<Rightarrow> bool \<Rightarrow> string" where
  "normalizeString p allowAboveRoot =
     join_with ''/'' (normalize_segments allowAboveRoot [] (split_on CHR ''/'' p))"

definition path_normalize :: "string \<Rightarrow> string" where
  "path_normalize p =
     (if p = [] then ''.''
      else
        (let isAbsolute = startsWith p ''/'';
             trailingSeparator = endsWith p ''/'';
             n = normalizeString p (\<not> isAbsolute)
         in if n = [] then (if isAbsolute then ''/'' else if trailingSeparator then ''./'' else ''.'')
            else (let n' = (if trailingSeparator then n @ ''/'' else n)
                  in if isAbsolute then ''/'' @ n' else n')))"

text \<open>\<open>path.join(a, b)\<close>: the non-empty arguments joined by a slash, normalized.\<close>

definition path_join :: "string \<Rightarrow> string \<Rightarrow> string" where
  "path_join a b =
     (if a = [] \<and> b = [] then ''.''
      else if a = [] then path_normalize b
      else if b = [] then path_normalize a
      else path_normalize (a @ ''/'' @ b))"

text \<open>
  \<open>path.resolve(p)\<close> with one argument; \<open>cwd\<close> is \<open>process.cwd()\<close>, used when \<open>p\<close> is empty
  or relative.
\<close>

definition path_resolve :: "string \<Rightarrow> string \<Rightarrow> string" where
  "path_resolve cwd p =
     (let resolvedPath =
            (if p = [] then cwd @ ''/''
             else if startsWith p ''/'' then p @ ''/''
             else cwd @ ''/'' @ p @ ''/'');
          resolvedAbsolute = (if p \<noteq> [] \<and> startsWith p ''/'' then True else startsWith cwd ''/'');
          n = normalizeString resolvedPath (\<not> resolvedAbsolute)
      in if resolvedAbsolute then ''/'' @ n
         else if n \<noteq> [] then n else ''.'')"

text \<open>
  The containment the spec words: the candidate is the root or a descendant of it, that
  is, the segments of the root are the leading segments of the candidate.
\<close>

definition path_segments :: "string \<Rightarrow> string list" where
  "path_segments p = filter (\<lambda>s. s \<noteq> []) (split_on CHR ''/'' p)"

definition spec_within_root :: "string \<Rightarrow> string \<Rightarrow> bool" where
  "spec_within_root root candidate = prefix (path_segments root) (path_segments candidate)"


section \<open>Workspace binding\<close>

text \<open>
  The metadata of a thread is a text column (null or empty: \<open>None\<close>). The text is modelled
  by what \<open>JSON.parse\<close> makes of it: a text that is not JSON, for which \<open>JSON.parse\<close> throws
  a SyntaxError with the given message, or the JSON text of a value. Of a value the
  handlers use only the property \<open>workspacePath\<close>: an object carries it (\<open>None\<close> when absent
  or null) beside its other keys; null, a primitive (with its \<open>typeof\<close> and its printed
  form) and an array have no such property.
\<close>

record thread_metadata =
  workspacePath :: "string option"
  otherKeys :: "(string \<times> string) list"

datatype json_value =
    JNull
  | JPrimitive string string
  | JArray
  | JObject thread_metadata

datatype metadata_text =
    NotJson string
  | Json json_value

record thread =
  metadata :: "metadata_text option"

definition JSON_parse :: "metadata_text \<Rightarrow> js_exn + json_value" where
  "JSON_parse txt = (case txt of NotJson msg \<Rightarrow> Inl (JsError msg) | Json v \<Rightarrow> Inr v)"

definition JSON_stringify :: "json_value \<Rightarrow> metadata_text" where
  "JSON_stringify v = Json v"

text \<open>
  \<open>metadata.workspacePath\<close>: reading a property of null throws a TypeError, of a primitive
  or an array gives undefined.
\<close>

definition read_workspacePath :: "json_value \<Rightarrow> js_exn + string option" where
  "read_workspacePath v =
     (case v of
        JNull \<Rightarrow> Inl (JsError ''Cannot read properties of null (reading 'workspacePath')'')
      | JPrimitive ty printed \<Rightarrow> Inr None
      | JArray \<Rightarrow> Inr None
      | JObject md \<Rightarrow> Inr (workspacePath md))"

text \<open>
  \<open>metadata.workspacePath = newPath\<close> (the module is strict code): on null and on a
  primitive the assignment throws a TypeError; on an array it sets a property that
  \<open>JSON.stringify\<close> leaves out, so the value is the array as before.
\<close>

definition write_workspacePath :: "json_value \<Rightarrow> string option \<Rightarrow> js_exn + json_value" where
  "write_workspacePath v newPath =
     (case v of
        JNull \<Rightarrow> Inl (JsError ''Cannot set properties of null (setting 'workspacePath')'')
      | JPrimitive ty printed \<Rightarrow>
          Inl (JsError (''Cannot create property 'workspacePath' on '' @ ty @ '' ''
                        @ [CHR 0x27] @ printed @ [CHR 0x27]))
      | JArray \<Rightarrow> Inr JArray
      | JObject md \<Rightarrow> Inr (JObject (md\<lparr>workspacePath := newPath\<rparr>)))"

text \<open>The object literal \<open>{}\<close>.\<close>

definition empty_object :: json_value where
  "empty_object = JObject \<lparr>workspacePath = None, otherKeys = []\<rparr>"

datatype effect =
    UpdateThread string metadata_text
  | StartWatching string string
  | StopWatching string
  | StoreSet string
  | StoreDelete

text \<open>
  The state the workspace handlers work on: the thread store, the key \<open>workspacePath\<close> of
  the settings store, the active watches by thread, and the log of the calls made to
  these collaborators.
\<close>

record ws_state =
  threads :: "string \<rightharpoonup> thread"
  storeWorkspacePath :: "string option"
  watchers :: "string \<rightharpoonup> string"
  effects :: "effect list"

text \<open>
  Modelled from the spec: \<open>getThread\<close> and \<open>updateThread\<close> of the thread store (module
  \<open>../db\<close>) and \<open>startWatching\<close> and \<open>stopWatching\<close> of the workspace watcher are not
  among the sources. \<open>getThread(id)\<close> gives the thread or null; \<open>updateThread(id,
  {metadata})\<close> replaces the metadata text of that thread; \<open>start\<close> replaces any watch of
  the thread and \<open>stop\<close> removes it.
\<close>

definition getThread :: "ws_state \<Rightarrow> string \<Rightarrow> thread option" where
  "getThread st threadId = threads st threadId"

definition updateThread :: "ws_state \<Rightarrow> string \<Rightarrow> metadata_text \<Rightarrow> ws_state" where
  "updateThread st threadId txt =
     st\<lparr>threads :=
          (case threads st threadId of
             None \<Rightarrow> threads st
           | Some t \<Rightarrow> (threads st)(threadId \<mapsto> t\<lparr>metadata := Some txt\<rparr>)),
        effects := effects st @ [UpdateThread threadId txt]\<rparr>"

definition startWatching :: "ws_state \<Rightarrow> string \<Rightarrow> string \<Rightarrow> ws_state" where
  "startWatching st threadId p =
     st\<lparr>watchers := (watchers st)(threadId \<mapsto> p),
        effects := effects st @ [StartWatching threadId p]\<rparr>"

definition stopWatching :: "ws_state \<Rightarrow> string \<Rightarrow> ws_state" where
  "stopWatching st threadId =
     st\<lparr>watchers := (watchers st)(threadId := None),
        effects := effects st @ [StopWatching threadId]\<rparr>"

text \<open>
  \<open>workspace:get\<close>: the value returned, or the value thrown (\<open>Inl\<close>: the handler has no
  \<open>try\<close>, so the call rejects). A missing or empty \<open>threadId\<close> is falsy and reads the global
  setting; otherwise the result is \<open>metadata.workspacePath || null\<close> of the thread.
\<close>

definition workspace_get :: "ws_state \<Rightarrow> string option \<Rightarrow> js_exn + string option" where
  "workspace_get st threadId =
     (if \<not> truthy threadId then Inr (storeWorkspacePath st)
      else
        (case getThread st (the threadId) of
           None \<Rightarrow> Inr None
         | Some t \<Rightarrow>
             (case metadata t of
                None \<Rightarrow> Inr None
              | Some txt \<Rightarrow>
                  (case JSON_parse txt of
                     Inl e \<Rightarrow> Inl e
                   | Inr md \<Rightarrow>
                       (case read_workspacePath md of
                          Inl e \<Rightarrow> Inl e
                        | Inr w \<Rightarrow> Inr (js_or w None))))))"

text \<open>
  \<open>workspace:set\<close>: the value returned or thrown, and the state after the call. A throw
  happens before \<open>updateThread\<close> is reached and leaves the state as it was.
\<close>

definition workspace_set ::
  "ws_state \<Rightarrow> string option \<Rightarrow> string option \<Rightarrow> (js_exn + string option) \<times> ws_state" where
  "workspace_set st threadId newPath =
     (if \<not> truthy threadId then
        (if truthy newPath
         then (Inr newPath, st\<lparr>storeWorkspacePath := newPath,
                                effects := effects st @ [StoreSet (the newPath)]\<rparr>)
         else (Inr newPath, st\<lparr>storeWorkspacePath := None,
                                effects := effects st @ [StoreDelete]\<rparr>))
      else
        (case getThread st (the threadId) of
           None \<Rightarrow> (Inr None, st)
         | Some t \<Rightarrow>
             (case (case metadata t of None \<Rightarrow> Inr empty_object | Some txt \<Rightarrow> JSON_parse txt) of
                Inl e \<Rightarrow> (Inl e, st)
              | Inr md \<Rightarrow>
                  (case write_workspacePath md newPath of
                     Inl e \<Rightarrow> (Inl e, st)
                   | Inr md' \<Rightarrow>
                       (let st1 = updateThread st (the threadId) (JSON_stringify md')
                        in if truthy newPath
                           then (Inr newPath, startWatching st1 (the threadId) (the newPath))
                           else (Inr newPath, stopWatching st1 (the threadId)))))))"

text \<open>
  The first lines of \<open>workspace:loadFromDisk\<close>, \<open>workspace:readFile\<close> and
  \<open>workspace:readBinaryFile\<close>, which stand before the \<open>try\<close>:
  \<open>thread?.metadata ? JSON.parse(thread.metadata) : {}\<close> and then \<open>metadata.workspacePath\<close>.
  The result is the path (undefined: \<open>None\<close>) or the value thrown.
\<close>

definition threadWorkspacePath :: "ws_state \<Rightarrow> string \<Rightarrow> js_exn + string option" where
  "threadWorkspacePath st threadId =
     (case (case getThread st threadId of
              None \<Rightarrow> Inr empty_object
            | Some t \<Rightarrow>
                (case metadata t of None \<Rightarrow> Inr empty_object | Some txt \<Rightarrow> JSON_parse txt)) of
        Inl e \<Rightarrow> Inl e
      | Inr md \<Rightarrow> read_workspacePath md)"

text \<open>
  The metadata the spec's data model describes: none, or the JSON text of an object.
\<close>

definition metadata_is_mapping :: "thread \<Rightarrow> bool" where
  "metadata_is_mapping t =
     (case metadata t of
        None \<Rightarrow> True
      | Some (Json (JObject md)) \<Rightarrow> True
      | Some other \<Rightarrow> False)"


section \<open>Directory snapshot\<close>

text \<open>
  What \<open>fs.stat\<close> gives, and the directory tree as \<open>fs.readdir\<close> with \<open>withFileTypes\<close>
  shows it: an entry that is not a directory carries the outcome of its \<open>stat\<close>, a
  directory the outcome of reading it.
\<close>

record stat_info =
  isDirectory :: bool
  stat_size :: nat
  mtime :: string

datatype dirent =
    FileEntry string "js_exn + stat_info"
  | DirEntry string listing
and listing =
    Unreadable js_exn
  | Entries "dirent list"

record file_entry =
  path :: string
  is_dir :: bool
  file_size :: "nat option"
  modified_at :: "string option"

definition skipped :: "string \<Rightarrow> bool" where
  "skipped nm = (startsWith nm ''.'' \<or> nm = ''node_modules'')"

definition relPathOf :: "string \<Rightarrow> string \<Rightarrow> string" where
  "relPathOf relativePath nm = (if relativePath \<noteq> [] then relativePath @ ''/'' @ nm else nm)"

text \<open>
  \<open>readDir\<close>: \<open>readDir\<close> is the call with the outcome of \<open>fs.readdir\<close>, \<open>readEntries\<close> the
  loop over the entries; \<open>files\<close> is the accumulator the closure appends to. A throw
  (\<open>Inl\<close>) ends the whole walk.
\<close>

fun readDir :: "listing \<Rightarrow> string \<Rightarrow> file_entry list \<Rightarrow> js_exn + file_entry list"
  and readEntries :: "dirent list \<Rightarrow> string \<Rightarrow> file_entry list \<Rightarrow> js_exn + file_entry list" where
  "readDir (Unreadable e) relativePath files = Inl e"
| "readDir (Entries entries) relativePath files = readEntries entries relativePath files"
| "readEntries [] relativePath files = Inr files"
| "readEntries (DirEntry nm sub # rest) relativePath files =
     (if skipped nm then readEntries rest relativePath files
      else
        (case readDir sub (relPathOf relativePath nm)
                (files @ [\<lparr>path = ''/'' @ relPathOf relativePath nm, is_dir = True,
                           file_size = None, modified_at = None\<rparr>]) of
           Inl e \<Rightarrow> Inl e
         | Inr files' \<Rightarrow> readEntries rest relativePath files'))"
| "readEntries (FileEntry nm st # rest) relativePath files =
     (if skipped nm then readEntries rest relativePath files
      else
        (case st of
           Inl e \<Rightarrow> Inl e
         | Inr s \<Rightarrow>
             readEntries rest relativePath
               (files @ [\<lparr>path = ''/'' @ relPathOf relativePath nm, is_dir = False,
                          file_size = Some (stat_size s), modified_at = Some (mtime s)\<rparr>])))"

datatype snapshot_result =
    SnapshotOk "file_entry list" string
  | SnapshotFailed string

text \<open>
  \<open>workspace:loadFromDisk\<close>; \<open>readdir\<close> gives the tree found at a root path. A throw of
  the lines before the \<open>try\<close> rejects the call (\<open>Inl\<close>).
\<close>

definition workspace_loadFromDisk ::
  "ws_state \<Rightarrow> (string \<Rightarrow> listing) \<Rightarrow> string \<Rightarrow> js_exn + snapshot_result" where
  "workspace_loadFromDisk st readdir threadId =
     (case threadWorkspacePath st threadId of
        Inl e \<Rightarrow> Inl e
      | Inr workspaceDir \<Rightarrow>
          if \<not> truthy workspaceDir then Inr (SnapshotFailed ''No workspace folder linked'')
          else
            (case readDir (readdir (the workspaceDir)) [] [] of
               Inl e \<Rightarrow> Inr (SnapshotFailed (error_message e))
             | Inr files \<Rightarrow> Inr (SnapshotOk files (the workspaceDir))))"

section \<open>File reads\<close>

text \<open>
  The disk as the read handlers see it: the outcome of \<open>fs.stat\<close>, of \<open>fs.readFile\<close> with
  the \<open>utf-8\<close> encoding and of \<open>fs.readFile\<close> to a buffer (its bytes), each by path. The
  calls a handler makes are recorded as \<open>fs_op\<close>s.
\<close>

record disk =
  fs_stat :: "string \<Rightarrow> js_exn + stat_info"
  fs_readFile_utf8 :: "string \<Rightarrow> js_exn + string"
  fs_readFile :: "string \<Rightarrow> js_exn + string"

datatype fs_op = Stat string | ReadFile string

datatype read_result =
    ReadOk string nat string
  | ReadFailed string

definition NoWorkspace :: string where
  "NoWorkspace = ''No workspace folder linked''"

definition AccessDenied :: string where
  "AccessDenied = ''Access denied: path outside workspace''"

definition IsDirectory :: string where
  "IsDirectory = ''Cannot read directory as file''"

text \<open>\<open>buffer.toString('base64')\<close>.\<close>

definition base64_digit :: "nat \<Rightarrow> char" where
  "base64_digit n =
     ''ABCDEFGHIJKLMNOPQRSTUVWXYZabcdefghijklmnopqrstuvwxyz0123456789+/'' ! (n mod 64)"

fun base64_bytes :: "nat list \<Rightarrow> string" where
  "base64_bytes [] = []"
| "base64_bytes [a] =
     [base64_digit (a div 4), base64_digit ((a mod 4) * 16), CHR ''='', CHR ''='']"
| "base64_bytes [a, b] =
     [base64_digit (a div 4), base64_digit ((a mod 4) * 16 + b div 16),
      base64_digit ((b mod 16) * 4), CHR ''='']"
| "base64_bytes (a # b # c # rest) =
     [base64_digit (a div 4), base64_digit ((a mod 4) * 16 + b div 16),
      base64_digit ((b mod 16) * 4 + c div 64), base64_digit (c mod 64)] @ base64_bytes rest"

definition toBase64 :: "string \<Rightarrow> string" where
  "toBase64 buffer = base64_bytes (map of_char buffer)"

text \<open>
  \<open>workspace:readFile\<close>: the result returned, or the value thrown by the lines before the
  \<open>try\<close> (\<open>Inl\<close>: the call rejects), and the disk calls made.
\<close>

definition workspace_readFile ::
  "ws_state \<Rightarrow> string \<Rightarrow> disk \<Rightarrow> string \<Rightarrow> string \<Rightarrow> (js_exn + read_result) \<times> fs_op list" where
  "workspace_readFile st cwd d threadId filePath =
     (case threadWorkspacePath st threadId of
        Inl e \<Rightarrow> (Inl e, [])
      | Inr workspaceDir \<Rightarrow>
          if \<not> truthy workspaceDir then (Inr (ReadFailed ''No workspace folder linked''), [])
          else
            (let relativePath = (if startsWith filePath ''/'' then drop 1 filePath else filePath);
                 fullPath = path_join (the workspaceDir) relativePath;
                 resolvedPath = path_resolve cwd fullPath;
                 resolvedWorkspace = path_resolve cwd (the workspaceDir)
             in if \<not> startsWith resolvedPath resolvedWorkspace
                then (Inr (ReadFailed ''Access denied: path outside workspace''), [])
                else
                  (case fs_stat d fullPath of
                     Inl e \<Rightarrow> (Inr (ReadFailed (error_message e)), [Stat fullPath])
                   | Inr stat \<Rightarrow>
                       if isDirectory stat
                       then (Inr (ReadFailed ''Cannot read directory as file''), [Stat fullPath])
                       else
                         (case fs_readFile_utf8 d fullPath of
                            Inl e \<Rightarrow>
                              (Inr (ReadFailed (error_message e)),
                               [Stat fullPath, ReadFile fullPath])
                          | Inr content \<Rightarrow>
                              (Inr (ReadOk content (stat_size stat) (mtime stat)),
                               [Stat fullPath, ReadFile fullPath])))))"

text \<open>\<open>workspace:readBinaryFile\<close>: the same steps, the buffer returned as base64.\<close>

definition workspace_readBinaryFile ::
  "ws_state \<Rightarrow> string \<Rightarrow> disk \<Rightarrow> string \<Rightarrow> string \<Rightarrow> (js_exn + read_result) \<times> fs_op list" where
  "workspace_readBinaryFile st cwd d threadId filePath =
     (case threadWorkspacePath st threadId of
        Inl e \<Rightarrow> (Inl e, [])
      | Inr workspaceDir \<Rightarrow>
          if \<not> truthy workspaceDir then (Inr (ReadFailed ''No workspace folder linked''), [])
          else
            (let relativePath = (if startsWith filePath ''/'' then drop 1 filePath else filePath);
                 fullPath = path_join (the workspaceDir) relativePath;
                 resolvedPath = path_resolve cwd fullPath;
                 resolvedWorkspace = path_resolve cwd (the workspaceDir)
             in if \<not> startsWith resolvedPath resolvedWorkspace
                then (Inr (ReadFailed ''Access denied: path outside workspace''), [])
                else
                  (case fs_stat d fullPath of
                     Inl e \<Rightarrow> (Inr (ReadFailed (error_message e)), [Stat fullPath])
                   | Inr stat \<Rightarrow>
                       if isDirectory stat
                       then (Inr (ReadFailed ''Cannot read directory as file''), [Stat fullPath])
                       else
                         (case fs_readFile d fullPath of
                            Inl e \<Rightarrow>
                              (Inr (ReadFailed (error_message e)),
                               [Stat fullPath, ReadFile fullPath])
                          | Inr buffer \<Rightarrow>
                              (Inr (ReadOk (toBase64 buffer) (stat_size stat) (mtime stat)),
                               [Stat fullPath, ReadFile fullPath])))))"


subsection \<open>The disk path and the security check\<close>

text \<open>
  The disk path a virtual path stands for (\<open>fullPath\<close> in both read handlers) and the
  outcome of their security check, named for the statements below.
\<close>

definition diskPath :: "string \<Rightarrow> string \<Rightarrow> string" where
  "diskPath root filePath =
     path_join root (if startsWith filePath ''/'' then drop 1 filePath else filePath)"

definition passesSecurityCheck :: "string \<Rightarrow> string \<Rightarrow> string \<Rightarrow> bool" where
  "passesSecurityCheck cwd root filePath =
     startsWith (path_resolve cwd (diskPath root filePath)) (path_resolve cwd root)"


section \<open>Trees and virtual paths\<close>

text \<open>
  For the statements about the snapshot: the components of a virtual path (the pieces
  between slashes after the leading one), the trees whose entry names hold no slash (as
  every name \<open>fs.readdir\<close> gives), and a tree without its skipped entries at every depth.
\<close>

definition components :: "string \<Rightarrow> string list" where
  "components virtualPath = split_on CHR ''/'' (drop 1 virtualPath)"

fun names_without_slash :: "listing \<Rightarrow> bool"
  and entries_without_slash :: "dirent list \<Rightarrow> bool" where
  "names_without_slash (Unreadable e) = True"
| "names_without_slash (Entries entries) = entries_without_slash entries"
| "entries_without_slash [] = True"
| "entries_without_slash (DirEntry nm sub # rest) =
     (CHR ''/'' \<notin> set nm \<and> names_without_slash sub \<and> entries_without_slash rest)"
| "entries_without_slash (FileEntry nm st # rest) =
     (CHR ''/'' \<notin> set nm \<and> entries_without_slash rest)"

fun without_skipped :: "listing \<Rightarrow> listing"
  and entries_without_skipped :: "dirent list \<Rightarrow> dirent list" where
  "without_skipped (Unreadable e) = Unreadable e"
| "without_skipped (Entries entries) = Entries (entries_without_skipped entries)"
| "entries_without_skipped [] = []"
| "entries_without_skipped (DirEntry nm sub # rest) =
     (if skipped nm then entries_without_skipped rest
      else DirEntry nm (without_skipped sub) # entries_without_skipped rest)"
| "entries_without_skipped (FileEntry nm st # rest) =
     (if skipped nm then entries_without_skipped rest
      else FileEntry nm st # entries_without_skipped rest)"

text \<open>A relative path none of whose components is skipped.\<close>

definition clean_path :: "string \<Rightarrow> bool" where
  "clean_path rel = list_all (\<lambda>c. \<not> skipped c) (split_on CHR ''/'' rel)"


section \<open>Example inputs\<close>

text \<open>Concrete catalog states, networks and environments at which the theorems are instantiated.\<close>

definition example_catalog_empty :: catalog where
  "example_catalog_empty =
     \<lparr>ollamaModelsCache = [], ollamaModelsCacheTime = 0,
      ollamaLocalModelsCache = [], ollamaLocalModelsCacheTime = 0\<rparr>"

definition example_catalog_cached :: catalog where
  "example_catalog_cached =
     \<lparr>ollamaModelsCache =
        [\<lparr>ident = ''glm-4.6'', name = ''Glm 4.6'', provider = ''ollama-cloud'',
          model = ''glm-4.6'', description = ''Ollama Cloud model: glm-4.6'',
          available = True, ollamaMode = Some ModeCloud\<rparr>],
      ollamaModelsCacheTime = 1000,
      ollamaLocalModelsCache = [localModelOf ''llama3.2:3b''],
      ollamaLocalModelsCacheTime = 1000\<rparr>"

definition example_cloud_down :: cloud_net where
  "example_cloud_down =
     \<lparr>v1_models = Inl (JsError ''fetch failed''), api_tags = Inl (JsError ''fetch failed'')\<rparr>"

definition example_env :: env where
  "example_env =
     \<lparr>getApiKey = (\<lambda>p. None), hasApiKey = (\<lambda>p. p = ''openai''),
      now_cloud = 5000, now_local = 5000, localEndpoint = ''http://localhost:11434'',
      cloudNet = example_cloud_down,
      localNet = Inr \<lparr>ok = True, json = Inr (Some [Some ''llama3.2:3b'', Some ''gemma2:9b''])\<rparr>\<rparr>"

definition example_env_offline :: env where
  "example_env_offline = example_env\<lparr>localNet := Inl (JsError ''fetch failed'')\<rparr>"


definition example_ws :: ws_state where
  "example_ws =
     \<lparr>threads =
        [''t1'' \<mapsto> \<lparr>metadata = None\<rparr>,
         ''t2'' \<mapsto> \<lparr>metadata =
                    Some (Json (JObject \<lparr>workspacePath = Some ''/home/user/ws'',
                                         otherKeys = [(''title'', ''demo'')]\<rparr>))\<rparr>],
      storeWorkspacePath = None,
      watchers = Map.empty,
      effects = []\<rparr>"

definition example_disk :: disk where
  "example_disk =
     \<lparr>fs_stat = (\<lambda>p.
        if p = ''/home/user/ws/file.txt'' \<or> p = ''/home/user/ws/locked.txt''
        then Inr \<lparr>isDirectory = False, stat_size = 2, mtime = ''2026-01-05T10:00:00.000Z''\<rparr>
        else if p = ''/home/user/ws/src''
        then Inr \<lparr>isDirectory = True, stat_size = 4096, mtime = ''2026-01-05T10:00:00.000Z''\<rparr>
        else if p = ''/home/user/ws-evil/secret.txt''
        then Inr \<lparr>isDirectory = False, stat_size = 6, mtime = ''2026-01-06T11:30:00.000Z''\<rparr>
        else Inl (JsError ''ENOENT: no such file or directory'')),
      fs_readFile_utf8 = (\<lambda>p.
        if p = ''/home/user/ws/file.txt'' then Inr ''hi''
        else if p = ''/home/user/ws-evil/secret.txt'' then Inr ''secret''
        else Inl (JsError ''EACCES: permission denied'')),
      fs_readFile = (\<lambda>p.
        if p = ''/home/user/ws/file.txt'' then Inr ''hi''
        else if p = ''/home/user/ws-evil/secret.txt'' then Inr ''secret''
        else Inl (JsError ''EACCES: permission denied''))\<rparr>"

definition example_tree :: listing where
  "example_tree =
     Entries
       [FileEntry ''file.txt''
          (Inr \<lparr>isDirectory = False, stat_size = 2, mtime = ''2026-01-05T10:00:00.000Z''\<rparr>),
        DirEntry ''.git'' (Unreadable (JsError ''EACCES: permission denied'')),
        DirEntry ''src''
          (Entries
             [FileEntry ''a.ts''
                (Inr \<lparr>isDirectory = False, stat_size = 5, mtime = ''2026-01-05T10:00:00.000Z''\<rparr>),
              FileEntry ''.env'' (Inl (JsError ''EACCES: permission denied'')),
              DirEntry ''node_modules''
                (Entries [FileEntry ''index.js'' (Inl (JsError ''EIO: i/o error''))])])]"



section \<open>Properties of the model catalog\<close>

lemma split_where_not_Nil: "split_where sep s \<noteq> []"
  by (induction s) (auto split: list.splits)

lemma collect_map_Inr: "collect (map Inr xs) = Inr xs"
  by (induction xs) auto

lemma localModelsOf_names:
  "localModelsOf (map Some names) =
     Inr (map localModelOf (filter (\<lambda>n. \<not> endsWith n '':cloud'' \<and> supportsToolCalling n) names))"
proof -
  have c: "collect (map (\<lambda>n. case n of None \<Rightarrow> Inl (JsError ''TypeError'') | Some s \<Rightarrow> Inr s)
             (map Some names)) = Inr names"
    using collect_map_Inr [of names] by (simp add: comp_def)
  have f: "filter (\<lambda>m. supportsToolCalling (ident m)) (map localModelOf xs)
           = map localModelOf (filter supportsToolCalling xs)" for xs
    by (induction xs) (auto simp: localModelOf_def)
  show ?thesis
    unfolding localModelsOf_def c by (simp add: f Let_def conj_commute)
qed

lemma hd_split_where: "hd (split_where sep s) = takeWhile (\<lambda>x. \<not> sep x) s"
proof (induction s)
  case Nil
  show ?case by simp
next
  case (Cons x xs)
  then show ?case
    using split_where_not_Nil [of sep xs] by (auto split: list.splits)
qed

lemma supportsToolCalling_base_name:
  "supportsToolCalling modelName
     = supportsToolCalling (takeWhile (\<lambda>c. c \<noteq> CHR '':'') modelName)"
proof -
  have "hd (split_on CHR '':'' (takeWhile (\<lambda>c. c \<noteq> CHR '':'') modelName))
          = hd (split_on CHR '':'' modelName)"
    by (simp add: split_on_def hd_split_where)
  then show ?thesis by (simp add: supportsToolCalling_def)
qed

lemma toLowerChar_cases:
  "toLowerChar c = c \<or> toLowerChar c \<in> set ''abcdefghijklmnopqrstuvwxyz''"
proof (cases "map_of (zip ''ABCDEFGHIJKLMNOPQRSTUVWXYZ'' ''abcdefghijklmnopqrstuvwxyz'') c")
  case None
  then show ?thesis by (simp add: toLowerChar_def)
next
  case (Some d)
  then have "(c, d) \<in> set (zip ''ABCDEFGHIJKLMNOPQRSTUVWXYZ'' ''abcdefghijklmnopqrstuvwxyz'')"
    by (rule map_of_SomeD)
  then have "d \<in> set ''abcdefghijklmnopqrstuvwxyz''"
    by (rule set_zip_rightD)
  moreover have "toLowerChar c = d"
    unfolding toLowerChar_def Some by simp
  ultimately show ?thesis by simp
qed

lemma toLowerChar_lower_all:
  "list_all (\<lambda>d. toLowerChar d = d) ''abcdefghijklmnopqrstuvwxyz''"
  by code_simp

lemma toLowerChar_lower:
  "d \<in> set ''abcdefghijklmnopqrstuvwxyz'' \<Longrightarrow> toLowerChar d = d"
  using toLowerChar_lower_all unfolding list_all_iff by blast

lemma toLowerChar_idem: "toLowerChar (toLowerChar c) = toLowerChar c"
proof -
  from toLowerChar_cases [of c] show ?thesis
  proof
    assume "toLowerChar c = c"
    then show ?thesis by simp
  next
    assume "toLowerChar c \<in> set ''abcdefghijklmnopqrstuvwxyz''"
    then show ?thesis by (rule toLowerChar_lower)
  qed
qed

lemma toLowerChar_colon: "(toLowerChar c = CHR '':'') = (c = CHR '':'')"
proof
  assume "c = CHR '':''" then show "toLowerChar c = CHR '':''" by (simp add: toLowerChar_def)
next
  assume a: "toLowerChar c = CHR '':''"
  have n: "CHR '':'' \<notin> set ''abcdefghijklmnopqrstuvwxyz''" by simp
  from toLowerChar_cases [of c] show "c = CHR '':''"
  proof
    assume "toLowerChar c = c"
    with a show ?thesis by simp
  next
    assume "toLowerChar c \<in> set ''abcdefghijklmnopqrstuvwxyz''"
    with a n show ?thesis by metis
  qed
qed

lemma toLowerCase_idem: "toLowerCase (toLowerCase s) = toLowerCase s"
  by (simp add: toLowerCase_def toLowerChar_idem)

lemma base_name_toLowerCase:
  "hd (split_on CHR '':'' (toLowerCase s)) = toLowerCase (hd (split_on CHR '':'' s))"
  by (simp add: split_on_def hd_split_where toLowerCase_def takeWhile_map comp_def
      toLowerChar_colon)

lemma supportsToolCalling_lower_case:
  "supportsToolCalling (toLowerCase modelName) = supportsToolCalling modelName"
  by (simp add: supportsToolCalling_def base_name_toLowerCase toLowerCase_idem)

lemma supportsToolCalling_upper:
  "supportsToolCalling ''LLaMA3.2:3B''" "\<not> supportsToolCalling ''Gemma2:9B''"
  "supportsToolCalling ''FunctionGemma:Latest''" "supportsToolCalling ''QWEN2.5-Coder:7b''"
  by (simp_all add: supportsToolCalling_def split_on_def toLowerCase_def toLowerChar_def
      startsWith_def)

lemma supportsToolCalling_llama: "supportsToolCalling ''llama3.2:3b''"
  by (simp add: supportsToolCalling_def split_on_def toLowerCase_def toLowerChar_def
      startsWith_def)

lemma supportsToolCalling_gemma2: "\<not> supportsToolCalling ''gemma2:9b''"
  by (simp add: supportsToolCalling_def split_on_def toLowerCase_def toLowerChar_def
      startsWith_def)

lemma supportsToolCalling_functiongemma: "supportsToolCalling ''functiongemma:latest''"
  by (simp add: supportsToolCalling_def split_on_def toLowerCase_def toLowerChar_def
      startsWith_def)

lemma supportsToolCalling_qwen: "supportsToolCalling ''qwen2.5-coder:7b''"
  by (simp add: supportsToolCalling_def split_on_def toLowerCase_def toLowerChar_def
      startsWith_def)

text \<open>
  Claim C4. \<open>supportsToolCalling\<close> is true for \<open>llama3.2:3b\<close>, false for \<open>gemma2:9b\<close>, true
  for \<open>functiongemma:latest\<close> and true for \<open>qwen2.5-coder:7b\<close>. It depends on the text
  before the first colon only, and that text is matched in lower case: a name and its
  lower-case form get the same answer, as the same four names with upper-case letters
  show. In local discovery, a
  listing with the names \<open>names\<close> that is fetched (the cache is not fresh) yields exactly
  one entry for each name that does not end with \<open>:cloud\<close> and passes the predicate, in
  the order of the listing: the other names have no entry at all, neither in the
  result nor in the cache.
\<close>

theorem C4_tool_calling_gate:
  "supportsToolCalling ''llama3.2:3b''
   \<and> \<not> supportsToolCalling ''gemma2:9b''
   \<and> supportsToolCalling ''functiongemma:latest''
   \<and> supportsToolCalling ''qwen2.5-coder:7b''
   \<and> supportsToolCalling modelName
       = supportsToolCalling (takeWhile (\<lambda>c. c \<noteq> CHR '':'') modelName)
   \<and> supportsToolCalling (toLowerCase modelName) = supportsToolCalling modelName
   \<and> supportsToolCalling ''LLaMA3.2:3B''
   \<and> \<not> supportsToolCalling ''Gemma2:9B''
   \<and> supportsToolCalling ''FunctionGemma:Latest''
   \<and> supportsToolCalling ''QWEN2.5-Coder:7b''
   \<and> fetchOllamaLocalModels now endpoint
         (Inr \<lparr>ok = True, json = Inr (Some (map Some names))\<rparr>) c
       = (if local_cache_fresh now c then (ollamaLocalModelsCache c, [], c)
          else (map localModelOf
                  (filter (\<lambda>n. \<not> endsWith n '':cloud'' \<and> supportsToolCalling n) names),
                [Fetch (endpoint @ ''/api/tags'')],
                c\<lparr>ollamaLocalModelsCache :=
                     map localModelOf
                       (filter (\<lambda>n. \<not> endsWith n '':cloud'' \<and> supportsToolCalling n) names),
                   ollamaLocalModelsCacheTime := now\<rparr>))
   \<and> map ident (map localModelOf
          (filter (\<lambda>n. \<not> endsWith n '':cloud'' \<and> supportsToolCalling n) names))
       = filter (\<lambda>n. \<not> endsWith n '':cloud'' \<and> supportsToolCalling n) names"
  using supportsToolCalling_base_name [of modelName]
    supportsToolCalling_lower_case [of modelName]
  by (simp add: supportsToolCalling_llama supportsToolCalling_gemma2
      supportsToolCalling_functiongemma supportsToolCalling_qwen supportsToolCalling_upper
      fetchOllamaLocalModels_def localModelsOf_names localModelOf_def comp_def)

lemmas ex_simps = example_catalog_empty_def example_catalog_cached_def example_cloud_down_def
  example_env_def example_env_offline_def


lemma local_requests_iff:
  "(fst (snd (fetchOllamaLocalModels now endpoint net c)) = []) = local_cache_fresh now c"
  by (simp add: fetchOllamaLocalModels_def split: sum.splits)

lemma cloud_requests_not_Nil: "fst (cloud_requests net) \<noteq> []"
  by (simp add: cloud_requests_def split: sum.splits)

lemma cloud_requests_iff:
  "truthy apiKey \<Longrightarrow>
   (fst (snd (fetchOllamaCloudModels apiKey now net c)) = []) = cloud_cache_fresh now c"
  using cloud_requests_not_Nil [of net]
  by (auto simp: fetchOllamaCloudModels_def Let_def split: sum.splits prod.splits)

lemma local_refetch:
  assumes "fetchOllamaLocalModels now endpoint net c = ([], reqs, c')" "reqs \<noteq> []" "now \<le> now'"
  shows "\<not> local_cache_fresh now' c'"
proof -
  from assms(1,2) have nf: "\<not> local_cache_fresh now c"
    using local_requests_iff [of now endpoint net c] by auto
  from assms(1) nf have "c' = c \<or> ollamaLocalModelsCache c' = []"
    by (auto simp: fetchOllamaLocalModels_def split: sum.splits if_splits)
  with nf assms(3) show ?thesis
    by (auto simp: local_cache_fresh_def)
qed

lemma cloud_refetch:
  assumes "fetchOllamaCloudModels apiKey now net c = ([], reqs, c')" "reqs \<noteq> []" "now \<le> now'"
  shows "\<not> cloud_cache_fresh now' c'"
proof -
  from assms(1,2) have nf: "\<not> cloud_cache_fresh now c"
    by (auto simp: fetchOllamaCloudModels_def split: if_splits)
  from assms(1) nf have "c' = c \<or> ollamaModelsCache c' = []"
    by (auto simp: fetchOllamaCloudModels_def Let_def split: sum.splits if_splits prod.splits)
  with nf assms(3) show ?thesis
    by (auto simp: cloud_cache_fresh_def)
qed

text \<open>
  Claim C2, as amended. A cache is fresh when it is non-empty and younger than 300,000 ms.
  Local discovery makes no request exactly when its cache is fresh, and then returns the
  cache with the state unchanged. Cloud discovery does the same whenever a cloud API key
  is stored; with no key stored it returns the empty list, makes no request and leaves
  the state unchanged, whatever the cache holds. After a call that made a request and
  returned no models, the next call (with a key stored, for the cloud) at the same or a
  later time makes a request again.
\<close>

theorem C2_cache_freshness:
  "local_cache_fresh now c
     = (ollamaLocalModelsCache c \<noteq> [] \<and> now - ollamaLocalModelsCacheTime c < 300000)
   \<and> cloud_cache_fresh now c
     = (ollamaModelsCache c \<noteq> [] \<and> now - ollamaModelsCacheTime c < 300000)
   \<and> (fst (snd (fetchOllamaLocalModels now endpoint lnet c)) = []) = local_cache_fresh now c
   \<and> (local_cache_fresh now c \<longrightarrow>
        fetchOllamaLocalModels now endpoint lnet c = (ollamaLocalModelsCache c, [], c))
   \<and> (truthy apiKey \<longrightarrow>
        (fst (snd (fetchOllamaCloudModels apiKey now cnet c)) = []) = cloud_cache_fresh now c
        \<and> (cloud_cache_fresh now c \<longrightarrow>
             fetchOllamaCloudModels apiKey now cnet c = (ollamaModelsCache c, [], c)))
   \<and> (\<not> truthy apiKey \<longrightarrow> fetchOllamaCloudModels apiKey now cnet c = ([], [], c))
   \<and> (fetchOllamaLocalModels now endpoint lnet c = ([], reqs, c') \<and> reqs \<noteq> [] \<and> now \<le> now'
        \<longrightarrow> fst (snd (fetchOllamaLocalModels now' endpoint' lnet' c')) \<noteq> [])
   \<and> (fetchOllamaCloudModels apiKey now cnet c = ([], reqs, c') \<and> reqs \<noteq> [] \<and> now \<le> now'
        \<and> truthy apiKey'
        \<longrightarrow> fst (snd (fetchOllamaCloudModels apiKey' now' cnet' c')) \<noteq> [])"
proof (intro conjI impI)
  show "local_cache_fresh now c
     = (ollamaLocalModelsCache c \<noteq> [] \<and> now - ollamaLocalModelsCacheTime c < 300000)"
    by (simp add: local_cache_fresh_def OLLAMA_CACHE_TTL_def)
  show "cloud_cache_fresh now c
     = (ollamaModelsCache c \<noteq> [] \<and> now - ollamaModelsCacheTime c < 300000)"
    by (simp add: cloud_cache_fresh_def OLLAMA_CACHE_TTL_def)
  show "(fst (snd (fetchOllamaLocalModels now endpoint lnet c)) = []) = local_cache_fresh now c"
    by (rule local_requests_iff)
  show "fetchOllamaLocalModels now endpoint lnet c = (ollamaLocalModelsCache c, [], c)"
    if "local_cache_fresh now c"
    using that by (simp add: fetchOllamaLocalModels_def)
  show "(fst (snd (fetchOllamaCloudModels apiKey now cnet c)) = []) = cloud_cache_fresh now c"
    if "truthy apiKey"
    using that by (rule cloud_requests_iff)
  show "fetchOllamaCloudModels apiKey now cnet c = (ollamaModelsCache c, [], c)"
    if "truthy apiKey" "cloud_cache_fresh now c"
    using that by (simp add: fetchOllamaCloudModels_def)
  show "fetchOllamaCloudModels apiKey now cnet c = ([], [], c)" if "\<not> truthy apiKey"
    using that by (simp add: fetchOllamaCloudModels_def)
  show "fst (snd (fetchOllamaLocalModels now' endpoint' lnet' c')) \<noteq> []"
    if "fetchOllamaLocalModels now endpoint lnet c = ([], reqs, c') \<and> reqs \<noteq> [] \<and> now \<le> now'"
    using that local_refetch [of now endpoint lnet c reqs c' now']
      local_requests_iff [of now' endpoint' lnet' c'] by simp
  show "fst (snd (fetchOllamaCloudModels apiKey' now' cnet' c')) \<noteq> []"
    if "fetchOllamaCloudModels apiKey now cnet c = ([], reqs, c') \<and> reqs \<noteq> [] \<and> now \<le> now'
        \<and> truthy apiKey'"
    using that cloud_refetch [of apiKey now cnet c reqs c' now']
      cloud_requests_iff [of apiKey' now' cnet' c'] by simp
qed


lemma example_local_fetch:
  "fetchOllamaLocalModels 5000 ''http://localhost:11434'' (localNet example_env)
     example_catalog_empty
   = ([localModelOf ''llama3.2:3b''], [Fetch ''http://localhost:11434/api/tags''],
      example_catalog_empty\<lparr>ollamaLocalModelsCache := [localModelOf ''llama3.2:3b''],
                             ollamaLocalModelsCacheTime := 5000\<rparr>)"
  by (simp add: ex_simps fetchOllamaLocalModels_def local_cache_fresh_def localModelsOf_def
      endsWith_def suffix_to_prefix supportsToolCalling_def split_on_def toLowerCase_def
      toLowerChar_def startsWith_def localModelOf_def)

lemma example_local_fetch_empty:
  "fetchOllamaLocalModels 5000 ''http://localhost:11434''
     (Inr \<lparr>ok = True, json = Inr (Some [])\<rparr>) example_catalog_empty
   = ([], [Fetch ''http://localhost:11434/api/tags''],
      example_catalog_empty\<lparr>ollamaLocalModelsCache := [], ollamaLocalModelsCacheTime := 5000\<rparr>)"
  by (simp add: ex_simps fetchOllamaLocalModels_def local_cache_fresh_def localModelsOf_def)

lemma example_cloud_fetch_down:
  "fetchOllamaCloudModels (Some ''key'') 5000 example_cloud_down example_catalog_empty
   = ([], [Fetch ''https://ollama.com/v1/models''], example_catalog_empty)"
  by (simp add: ex_simps fetchOllamaCloudModels_def cloud_cache_fresh_def cloud_requests_def
      truthy_def)

text \<open>The theorem at a fresh cache, at a missing key and at an empty fetch result.\<close>

theorem C2_cache_freshness_witness:
  "local_cache_fresh 2000 example_catalog_cached
   \<and> fetchOllamaLocalModels 2000 ''http://localhost:11434'' (Inl JsOther) example_catalog_cached
       = (ollamaLocalModelsCache example_catalog_cached, [], example_catalog_cached)
   \<and> truthy (Some ''key'') \<and> cloud_cache_fresh 2000 example_catalog_cached
   \<and> fetchOllamaCloudModels (Some ''key'') 2000 example_cloud_down example_catalog_cached
       = (ollamaModelsCache example_catalog_cached, [], example_catalog_cached)
   \<and> \<not> truthy None
   \<and> fetchOllamaCloudModels None 2000 example_cloud_down example_catalog_cached
       = ([], [], example_catalog_cached)
   \<and> fetchOllamaLocalModels 5000 ''http://localhost:11434''
        (Inr \<lparr>ok = True, json = Inr (Some [])\<rparr>) example_catalog_empty
       = ([], [Fetch ''http://localhost:11434/api/tags''],
          example_catalog_empty\<lparr>ollamaLocalModelsCache := [],
                                 ollamaLocalModelsCacheTime := 5000\<rparr>)
   \<and> fst (snd (fetchOllamaLocalModels 5001 ''http://localhost:11434'' (Inl JsOther)
        (example_catalog_empty\<lparr>ollamaLocalModelsCache := [],
                               ollamaLocalModelsCacheTime := 5000\<rparr>))) \<noteq> []
   \<and> fetchOllamaCloudModels (Some ''key'') 5000 example_cloud_down example_catalog_empty
       = ([], [Fetch ''https://ollama.com/v1/models''], example_catalog_empty)
   \<and> fst (snd (fetchOllamaCloudModels (Some ''key'') 5001 example_cloud_down
        example_catalog_empty)) \<noteq> []"
proof -
  have fl: "local_cache_fresh 2000 example_catalog_cached"
    by (simp add: local_cache_fresh_def example_catalog_cached_def OLLAMA_CACHE_TTL_def)
  have fc: "cloud_cache_fresh 2000 example_catalog_cached"
    by (simp add: cloud_cache_fresh_def example_catalog_cached_def OLLAMA_CACHE_TTL_def)
  have k: "truthy (Some ''key'')" and nk: "\<not> truthy None"
    by (simp_all add: truthy_def)
  note a = C2_cache_freshness [of 2000 example_catalog_cached "''http://localhost:11434''"
      "Inl JsOther" "Some ''key''" example_cloud_down]
  note b = C2_cache_freshness [of 2000 example_catalog_cached "''http://localhost:11434''"
      "Inl JsOther" None example_cloud_down]
  note d = C2_cache_freshness [of 5000 example_catalog_empty "''http://localhost:11434''"
      "Inr \<lparr>ok = True, json = Inr (Some [])\<rparr>" "Some ''key''" example_cloud_down
      "[Fetch ''http://localhost:11434/api/tags'']"
      "example_catalog_empty\<lparr>ollamaLocalModelsCache := [], ollamaLocalModelsCacheTime := 5000\<rparr>"
      5001 "''http://localhost:11434''" "Inl JsOther"]
  note f = C2_cache_freshness [of 5000 example_catalog_empty "''http://localhost:11434''"
      "Inl JsOther" "Some ''key''" example_cloud_down
      "[Fetch ''https://ollama.com/v1/models'']" example_catalog_empty
      5001 _ _ "Some ''key''" example_cloud_down]
  from a fl have 1: "fetchOllamaLocalModels 2000 ''http://localhost:11434'' (Inl JsOther)
      example_catalog_cached
       = (ollamaLocalModelsCache example_catalog_cached, [], example_catalog_cached)"
    by blast
  from a k fc have 2: "fetchOllamaCloudModels (Some ''key'') 2000 example_cloud_down
      example_catalog_cached = (ollamaModelsCache example_catalog_cached, [], example_catalog_cached)"
    by blast
  from b nk have 3: "fetchOllamaCloudModels None 2000 example_cloud_down example_catalog_cached
       = ([], [], example_catalog_cached)"
    by blast
  from d example_local_fetch_empty
  have 4: "fst (snd (fetchOllamaLocalModels 5001 ''http://localhost:11434'' (Inl JsOther)
        (example_catalog_empty\<lparr>ollamaLocalModelsCache := [],
                               ollamaLocalModelsCacheTime := 5000\<rparr>))) \<noteq> []"
    by simp
  from f example_cloud_fetch_down k
  have 5: "fst (snd (fetchOllamaCloudModels (Some ''key'') 5001 example_cloud_down
        example_catalog_empty)) \<noteq> []"
    by simp
  from fl fc k nk 1 2 3 4 5 example_local_fetch_empty example_cloud_fetch_down
  show ?thesis by blast
qed

text \<open>
  Claim C2 as stated fails for the cloud cache: with no API key stored, a fresh non-empty
  cache is not served (the result is empty), and a stale cache triggers no fetch.
\<close>

theorem C2_cloud_without_key_counterexample:
  "cloud_cache_fresh 2000 example_catalog_cached
   \<and> ollamaModelsCache example_catalog_cached \<noteq> []
   \<and> fst (fetchOllamaCloudModels None 2000 example_cloud_down example_catalog_cached) = []
   \<and> \<not> cloud_cache_fresh 400000 example_catalog_cached
   \<and> fst (snd (fetchOllamaCloudModels None 400000 example_cloud_down example_catalog_cached)) = []"
  by (simp add: cloud_cache_fresh_def example_catalog_cached_def OLLAMA_CACHE_TTL_def
      fetchOllamaCloudModels_def truthy_def)


lemma models_list_merge:
  assumes "fetchOllamaCloudModels (getApiKey e ''ollama-cloud'') (now_cloud e) (cloudNet e) c
             = (cl, r1, c1)"
      and "fetchOllamaLocalModels (now_local e) (localEndpoint e) (localNet e) c1 = (lo, r2, c2)"
  shows "models_list e c = (mergeModels (hasApiKey e) cl lo, r1 @ r2, c2)"
  using assms by (simp add: models_list_def)

text \<open>
  Claim C3. In \<open>models:list\<close>, with \<open>cl\<close> and \<open>lo\<close> the results of the cloud and the local
  source, the response is the static part followed by \<open>cl\<close> and \<open>lo\<close>, each entry with its
  \<open>available\<close> flag recomputed. If \<open>cl\<close> or \<open>lo\<close> is non-empty, the static part is the
  static table without every entry whose provider is \<open>ollama-local\<close> or \<open>ollama-cloud\<close>;
  if both are empty, the static part is the whole static table and the response is the
  static table with recomputed flags.
\<close>

theorem C3_static_suppression:
  assumes "fetchOllamaCloudModels (getApiKey e ''ollama-cloud'') (now_cloud e) (cloudNet e) c
             = (cl, r1, c1)"
      and "fetchOllamaLocalModels (now_local e) (localEndpoint e) (localNet e) c1 = (lo, r2, c2)"
  shows "fst (models_list e c)
           = map (withAvailability (hasApiKey e)) (staticModels cl lo @ cl @ lo)
         \<and> (cl \<noteq> [] \<or> lo \<noteq> [] \<longrightarrow>
              staticModels cl lo
                = filter (\<lambda>m. provider m \<noteq> ''ollama-local'' \<and> provider m \<noteq> ''ollama-cloud'')
                    AVAILABLE_MODELS
              \<and> (\<forall>m \<in> set AVAILABLE_MODELS.
                    provider m = ''ollama-local'' \<or> provider m = ''ollama-cloud''
                    \<longrightarrow> m \<notin> set (staticModels cl lo)))
         \<and> (cl = [] \<and> lo = [] \<longrightarrow>
              staticModels cl lo = AVAILABLE_MODELS
              \<and> fst (models_list e c) = map (withAvailability (hasApiKey e)) AVAILABLE_MODELS)"
proof (intro conjI impI)
  show m: "fst (models_list e c)
           = map (withAvailability (hasApiKey e)) (staticModels cl lo @ cl @ lo)"
    using models_list_merge [OF assms] by (simp add: mergeModels_def)
  show "staticModels cl lo
          = filter (\<lambda>m. provider m \<noteq> ''ollama-local'' \<and> provider m \<noteq> ''ollama-cloud'')
              AVAILABLE_MODELS"
    if "cl \<noteq> [] \<or> lo \<noteq> []"
    using that by (simp add: staticModels_def)
  show "\<forall>m \<in> set AVAILABLE_MODELS.
          provider m = ''ollama-local'' \<or> provider m = ''ollama-cloud''
          \<longrightarrow> m \<notin> set (staticModels cl lo)"
    if "cl \<noteq> [] \<or> lo \<noteq> []"
    using that by (auto simp: staticModels_def)
  show s: "staticModels cl lo = AVAILABLE_MODELS" if "cl = [] \<and> lo = []"
    using that by (simp add: staticModels_def)
  show "fst (models_list e c) = map (withAvailability (hasApiKey e)) AVAILABLE_MODELS"
    if "cl = [] \<and> lo = []"
    using that m s by simp
qed

lemma example_cloud_no_key:
  "fetchOllamaCloudModels (getApiKey example_env ''ollama-cloud'') (now_cloud example_env)
     (cloudNet example_env) example_catalog_empty = ([], [], example_catalog_empty)"
  by (simp add: example_env_def fetchOllamaCloudModels_def truthy_def)

lemma example_cloud_no_key_offline:
  "fetchOllamaCloudModels (getApiKey example_env_offline ''ollama-cloud'')
     (now_cloud example_env_offline) (cloudNet example_env_offline) example_catalog_empty
   = ([], [], example_catalog_empty)"
  by (simp add: example_env_def example_env_offline_def fetchOllamaCloudModels_def truthy_def)

lemma example_local_offline:
  "fetchOllamaLocalModels (now_local example_env_offline) (localEndpoint example_env_offline)
     (localNet example_env_offline) example_catalog_empty
   = ([], [Fetch ''http://localhost:11434/api/tags''], example_catalog_empty)"
  by (simp add: ex_simps fetchOllamaLocalModels_def local_cache_fresh_def)

lemma example_local_env:
  "fetchOllamaLocalModels (now_local example_env) (localEndpoint example_env)
     (localNet example_env) example_catalog_empty
   = ([localModelOf ''llama3.2:3b''], [Fetch ''http://localhost:11434/api/tags''],
      example_catalog_empty\<lparr>ollamaLocalModelsCache := [localModelOf ''llama3.2:3b''],
                             ollamaLocalModelsCacheTime := 5000\<rparr>)"
  using example_local_fetch by (simp add: example_env_def)

text \<open>The theorem with one local model discovered, and with both sources empty.\<close>

theorem C3_static_suppression_witness:
  "fetchOllamaCloudModels (getApiKey example_env ''ollama-cloud'') (now_cloud example_env)
     (cloudNet example_env) example_catalog_empty = ([], [], example_catalog_empty)
   \<and> fetchOllamaLocalModels (now_local example_env) (localEndpoint example_env)
       (localNet example_env) example_catalog_empty
     = ([localModelOf ''llama3.2:3b''], [Fetch ''http://localhost:11434/api/tags''],
        example_catalog_empty\<lparr>ollamaLocalModelsCache := [localModelOf ''llama3.2:3b''],
                               ollamaLocalModelsCacheTime := 5000\<rparr>)
   \<and> map ident (fst (models_list example_env example_catalog_empty))
     = map ident (filter (\<lambda>m. provider m \<noteq> ''ollama-local'' \<and> provider m \<noteq> ''ollama-cloud'')
                    AVAILABLE_MODELS) @ [''llama3.2:3b'']
   \<and> AVAILABLE_MODELS ! 20 \<in> set AVAILABLE_MODELS
   \<and> provider (AVAILABLE_MODELS ! 20) = ''ollama-cloud''
   \<and> AVAILABLE_MODELS ! 20 \<notin> set (staticModels [] [localModelOf ''llama3.2:3b''])
   \<and> fetchOllamaLocalModels (now_local example_env_offline) (localEndpoint example_env_offline)
       (localNet example_env_offline) example_catalog_empty
     = ([], [Fetch ''http://localhost:11434/api/tags''], example_catalog_empty)
   \<and> map ident (fst (models_list example_env_offline example_catalog_empty))
     = map ident AVAILABLE_MODELS"
proof -
  note a = C3_static_suppression [OF example_cloud_no_key example_local_env]
  note b = C3_static_suppression [OF example_cloud_no_key_offline example_local_offline]
  have mem: "AVAILABLE_MODELS ! 20 \<in> set AVAILABLE_MODELS"
    by (simp add: AVAILABLE_MODELS_def)
  have prov: "provider (AVAILABLE_MODELS ! 20) = ''ollama-cloud''"
    by (simp add: AVAILABLE_MODELS_def)
  have ne: "[] \<noteq> [] \<or> [localModelOf ''llama3.2:3b''] \<noteq> []" by simp
  from a ne mem prov
  have 1: "AVAILABLE_MODELS ! 20 \<notin> set (staticModels [] [localModelOf ''llama3.2:3b''])"
    by blast
  from a ne have 2: "map ident (fst (models_list example_env example_catalog_empty))
     = map ident (filter (\<lambda>m. provider m \<noteq> ''ollama-local'' \<and> provider m \<noteq> ''ollama-cloud'')
                    AVAILABLE_MODELS) @ [''llama3.2:3b'']"
    by (simp add: comp_def withAvailability_def localModelOf_def)
  from b have 3: "map ident (fst (models_list example_env_offline example_catalog_empty))
     = map ident AVAILABLE_MODELS"
    by (simp add: comp_def withAvailability_def)
  from 1 2 3 mem prov example_cloud_no_key example_local_env example_local_offline
  show ?thesis by blast
qed

lemma available_withAvailability:
  "available (withAvailability hasKey m)
     = (if ollamaMode m = Some ModeLocal then True else hasKey (provider m))"
  by (simp add: withAvailability_def)

text \<open>
  Claim C8. Every entry of a \<open>models:list\<close> response with mode \<open>local\<close> is available, and
  every other entry is available exactly when the credential store has a key for its
  provider. The flag is computed from the mode and the provider alone: the \<open>available\<close>
  value the static or cached entry carried has no influence.
\<close>

theorem C8_available_recomputed:
  "(\<forall>m \<in> set (fst (models_list e c)).
      available m = (if ollamaMode m = Some ModeLocal then True else hasApiKey e (provider m)))
   \<and> map available (mergeModels hasKey cl lo)
       = map (\<lambda>m. if ollamaMode m = Some ModeLocal then True else hasKey (provider m))
           (staticModels cl lo @ cl @ lo)
   \<and> withAvailability hasKey (m\<lparr>available := b\<rparr>) = withAvailability hasKey m"
proof (intro conjI)
  have "\<forall>m \<in> set (mergeModels hk cl lo).
      available m = (if ollamaMode m = Some ModeLocal then True else hk (provider m))" for hk cl lo
    by (auto simp: mergeModels_def withAvailability_def)
  then show "\<forall>m \<in> set (fst (models_list e c)).
      available m = (if ollamaMode m = Some ModeLocal then True else hasApiKey e (provider m))"
    by (simp add: models_list_def split: prod.splits)
  show "map available (mergeModels hasKey cl lo)
       = map (\<lambda>m. if ollamaMode m = Some ModeLocal then True else hasKey (provider m))
           (staticModels cl lo @ cl @ lo)"
    by (simp add: mergeModels_def comp_def available_withAvailability)
  show "withAvailability hasKey (m\<lparr>available := b\<rparr>) = withAvailability hasKey m"
    by (simp add: withAvailability_def)
qed

lemma example_models_list_last:
  "last (fst (models_list example_env example_catalog_empty))
     = localModelOf ''llama3.2:3b''"
  using models_list_merge [OF example_cloud_no_key example_local_env]
  by (simp add: mergeModels_def withAvailability_def localModelOf_def)

lemma example_models_list_nonempty:
  "fst (models_list example_env example_catalog_empty) \<noteq> []"
  using models_list_merge [OF example_cloud_no_key example_local_env]
  by (simp add: mergeModels_def)

lemma example_models_list_hd:
  "hd (fst (models_list example_env example_catalog_empty))
     = (AVAILABLE_MODELS ! 0)\<lparr>available := False\<rparr>"
  using models_list_merge [OF example_cloud_no_key example_local_env]
  by (simp add: mergeModels_def withAvailability_def staticModels_def AVAILABLE_MODELS_def
      example_env_def)

text \<open>
  The theorem at a response whose last entry is a discovered local model and whose first
  entry is a static model of a provider without a key.
\<close>

theorem C8_available_recomputed_witness:
  "last (fst (models_list example_env example_catalog_empty))
     \<in> set (fst (models_list example_env example_catalog_empty))
   \<and> ollamaMode (last (fst (models_list example_env example_catalog_empty))) = Some ModeLocal
   \<and> available (last (fst (models_list example_env example_catalog_empty)))
   \<and> hd (fst (models_list example_env example_catalog_empty))
     \<in> set (fst (models_list example_env example_catalog_empty))
   \<and> provider (hd (fst (models_list example_env example_catalog_empty))) = ''anthropic''
   \<and> available (AVAILABLE_MODELS ! 0)
   \<and> \<not> hasApiKey example_env ''anthropic''
   \<and> \<not> available (hd (fst (models_list example_env example_catalog_empty)))"
proof -
  let ?ms = "fst (models_list example_env example_catalog_empty)"
  have l: "last ?ms \<in> set ?ms" and h: "hd ?ms \<in> set ?ms"
    using example_models_list_nonempty by simp_all
  have ml: "ollamaMode (last ?ms) = Some ModeLocal"
    by (simp add: example_models_list_last localModelOf_def)
  have mh: "ollamaMode (hd ?ms) = None" "provider (hd ?ms) = ''anthropic''"
    by (simp_all add: example_models_list_hd AVAILABLE_MODELS_def)
  have nk: "\<not> hasApiKey example_env ''anthropic''"
    by (simp add: example_env_def)
  have av: "available (AVAILABLE_MODELS ! 0)"
    by (simp add: AVAILABLE_MODELS_def)
  note a = C8_available_recomputed [of example_env example_catalog_empty]
  from a l ml have 1: "available (last ?ms)" by auto
  from a h mh nk have 2: "\<not> available (hd ?ms)" by auto
  from l h ml mh nk av 1 2 show ?thesis by blast
qed

section \<open>Properties of the workspace binding\<close>

text \<open>
  Claim C9. When \<open>workspace:set\<close> is called with a thread id (a non-empty string, so that
  the handler asks the thread store) for which the store has no thread, it returns null
  and the state is the one before the call: no metadata is written, the watches are the
  same, and the log of calls to the store and to the watcher has no new entry (no
  \<open>updateThread\<close>, no \<open>startWatching\<close>, no \<open>stopWatching\<close>).
\<close>

theorem C9_set_unknown_thread:
  "tid \<noteq> [] \<Longrightarrow> getThread st tid = None \<Longrightarrow>
   workspace_set st (Some tid) newPath = (Inr None, st)
   \<and> threads (snd (workspace_set st (Some tid) newPath)) = threads st
   \<and> watchers (snd (workspace_set st (Some tid) newPath)) = watchers st
   \<and> effects (snd (workspace_set st (Some tid) newPath)) = effects st"
  by (simp add: workspace_set_def truthy_def)

text \<open>
  The theorem at a thread id the example store does not know.
\<close>

theorem C9_set_unknown_thread_witness:
  "''t9'' \<noteq> [] \<and> getThread example_ws ''t9'' = None
   \<and> workspace_set example_ws (Some ''t9'') (Some ''/home/user/ws'') = (Inr None, example_ws)"
proof -
  have a: "''t9'' \<noteq> []" by simp
  have b: "getThread example_ws ''t9'' = None"
    by (simp add: getThread_def example_ws_def)
  from C9_set_unknown_thread [OF a b, of "Some ''/home/user/ws''"] a b show ?thesis by simp
qed

lemma mapping_cases:
  assumes "metadata_is_mapping t"
  obtains "metadata t = None" | md where "metadata t = Some (Json (JObject md))"
  using assms
  by (auto simp: metadata_is_mapping_def split: option.splits metadata_text.splits
      json_value.splits)

lemma set_then_get_thread:
  assumes "tid \<noteq> []" "getThread st tid = Some t" "metadata_is_mapping t"
  shows "fst (workspace_set st (Some tid) newPath) = Inr newPath"
    and "workspace_get (snd (workspace_set st (Some tid) newPath)) (Some tid)
           = Inr (js_or newPath None)"
proof -
  have k: "truthy (Some tid)" using assms(1) by (simp add: truthy_def)
  from assms(3) show "fst (workspace_set st (Some tid) newPath) = Inr newPath"
  proof (cases rule: mapping_cases)
    case 1
    with k assms(2) show ?thesis
      by (simp add: workspace_set_def empty_object_def write_workspacePath_def Let_def)
  next
    case (2 md)
    with k assms(2) show ?thesis
      by (simp add: workspace_set_def JSON_parse_def write_workspacePath_def Let_def)
  qed
  from assms(3) show "workspace_get (snd (workspace_set st (Some tid) newPath)) (Some tid)
           = Inr (js_or newPath None)"
  proof (cases rule: mapping_cases)
    case 1
    with k assms(2) show ?thesis
      by (simp add: workspace_set_def workspace_get_def empty_object_def write_workspacePath_def
          JSON_stringify_def JSON_parse_def read_workspacePath_def getThread_def
          updateThread_def startWatching_def stopWatching_def Let_def)
  next
    case (2 md)
    with k assms(2) show ?thesis
      by (simp add: workspace_set_def workspace_get_def write_workspacePath_def
          JSON_stringify_def JSON_parse_def read_workspacePath_def getThread_def
          updateThread_def startWatching_def stopWatching_def Let_def)
  qed
qed

lemma set_frame:
  assumes "tid \<noteq> []"
  shows "storeWorkspacePath (snd (workspace_set st (Some tid) newPath)) = storeWorkspacePath st"
    and "t2 \<noteq> tid \<Longrightarrow> threads (snd (workspace_set st (Some tid) newPath)) t2 = threads st t2"
proof -
  have k: "truthy (Some tid)" using assms by (simp add: truthy_def)
  show "storeWorkspacePath (snd (workspace_set st (Some tid) newPath)) = storeWorkspacePath st"
    using k
    by (simp add: workspace_set_def updateThread_def startWatching_def stopWatching_def Let_def
        split: option.splits sum.splits)
  show "threads (snd (workspace_set st (Some tid) newPath)) t2 = threads st t2" if "t2 \<noteq> tid"
    using k that
    by (simp add: workspace_set_def updateThread_def startWatching_def stopWatching_def Let_def
        getThread_def split: option.splits sum.splits)
qed

lemma workspace_get_depends:
  assumes "storeWorkspacePath st' = storeWorkspacePath st"
      and "\<And>t2. T2 = Some t2 \<Longrightarrow> threads st' t2 = threads st t2"
  shows "workspace_get st' T2 = workspace_get st T2"
proof (cases T2)
  case None
  with assms(1) show ?thesis by (simp add: workspace_get_def truthy_def)
next
  case (Some t2)
  with assms show ?thesis by (simp add: workspace_get_def getThread_def)
qed

lemma get_other_after_set:
  assumes "tid \<noteq> []" "T2 \<noteq> Some tid"
  shows "workspace_get (snd (workspace_set st (Some tid) newPath)) T2 = workspace_get st T2"
proof (rule workspace_get_depends)
  show "storeWorkspacePath (snd (workspace_set st (Some tid) newPath)) = storeWorkspacePath st"
    using set_frame(1) [OF assms(1)] .
  show "threads (snd (workspace_set st (Some tid) newPath)) t2 = threads st t2" if "T2 = Some t2" for t2
    using that assms(2) set_frame(2) [OF assms(1), of t2] by simp
qed

text \<open>
  Claim C5. For every thread \<open>tid\<close> of the thread store (its metadata none or a JSON
  object, as the store keeps it) and every path \<open>p\<close> (a non-empty string):
  \<open>workspace:set(tid, p)\<close> returns \<open>p\<close> and \<open>workspace:get(tid)\<close> then returns \<open>p\<close>;
  \<open>workspace:set(tid, null)\<close> returns null and \<open>workspace:get(tid)\<close> then returns null;
  and \<open>workspace:set(tid, newPath)\<close> leaves \<open>workspace:get(T2)\<close> as it was for every
  \<open>T2\<close> other than \<open>tid\<close>, whatever the metadata of either thread.
\<close>

theorem C5_bind_get:
  "(tid \<noteq> [] \<and> getThread st tid = Some t \<and> metadata_is_mapping t \<and> p \<noteq> [] \<longrightarrow>
      fst (workspace_set st (Some tid) (Some p)) = Inr (Some p)
      \<and> workspace_get (snd (workspace_set st (Some tid) (Some p))) (Some tid) = Inr (Some p))
   \<and> (tid \<noteq> [] \<and> getThread st tid = Some t \<and> metadata_is_mapping t \<longrightarrow>
      fst (workspace_set st (Some tid) None) = Inr None
      \<and> workspace_get (snd (workspace_set st (Some tid) None)) (Some tid) = Inr None)
   \<and> (tid \<noteq> [] \<and> T2 \<noteq> Some tid \<longrightarrow>
        workspace_get (snd (workspace_set st (Some tid) newPath)) T2 = workspace_get st T2)"
proof (intro conjI impI)
  assume a: "tid \<noteq> [] \<and> getThread st tid = Some t \<and> metadata_is_mapping t \<and> p \<noteq> []"
  then show "fst (workspace_set st (Some tid) (Some p)) = Inr (Some p)"
    using set_then_get_thread(1) [of tid st t "Some p"] by simp
  from a show "workspace_get (snd (workspace_set st (Some tid) (Some p))) (Some tid) = Inr (Some p)"
    using set_then_get_thread(2) [of tid st t "Some p"] by (simp add: js_or_def truthy_def)
next
  assume a: "tid \<noteq> [] \<and> getThread st tid = Some t \<and> metadata_is_mapping t"
  then show "fst (workspace_set st (Some tid) None) = Inr None"
    using set_then_get_thread(1) [of tid st t None] by simp
  from a show "workspace_get (snd (workspace_set st (Some tid) None)) (Some tid) = Inr None"
    using set_then_get_thread(2) [of tid st t None] by (simp add: js_or_def truthy_def)
next
  assume "tid \<noteq> [] \<and> T2 \<noteq> Some tid"
  then show "workspace_get (snd (workspace_set st (Some tid) newPath)) T2 = workspace_get st T2"
    using get_other_after_set by blast
qed

lemma ex_ws_threads:
  "getThread example_ws ''t1'' = Some \<lparr>metadata = None\<rparr>"
  "getThread example_ws ''t2''
     = Some \<lparr>metadata = Some (Json (JObject \<lparr>workspacePath = Some ''/home/user/ws'',
                                              otherKeys = [(''title'', ''demo'')]\<rparr>))\<rparr>"
  by (simp_all add: getThread_def example_ws_def)

text \<open>
  The theorem at the two threads of the example store: a bind on the first, an unbind
  on the second, and the second unaffected by the bind on the first.
\<close>

theorem C5_bind_get_witness:
  "''t1'' \<noteq> [] \<and> getThread example_ws ''t1'' = Some \<lparr>metadata = None\<rparr>
   \<and> metadata_is_mapping \<lparr>metadata = None\<rparr> \<and> ''/home/user/app'' \<noteq> []
   \<and> workspace_get (snd (workspace_set example_ws (Some ''t1'') (Some ''/home/user/app'')))
        (Some ''t1'') = Inr (Some ''/home/user/app'')
   \<and> ''t2'' \<noteq> []
   \<and> metadata_is_mapping
        \<lparr>metadata = Some (Json (JObject \<lparr>workspacePath = Some ''/home/user/ws'',
                                            otherKeys = [(''title'', ''demo'')]\<rparr>))\<rparr>
   \<and> workspace_get example_ws (Some ''t2'') = Inr (Some ''/home/user/ws'')
   \<and> workspace_get (snd (workspace_set example_ws (Some ''t2'') None)) (Some ''t2'') = Inr None
   \<and> Some ''t2'' \<noteq> Some ''t1''
   \<and> workspace_get (snd (workspace_set example_ws (Some ''t1'') (Some ''/home/user/app'')))
        (Some ''t2'') = Inr (Some ''/home/user/ws'')"
proof -
  have m1: "metadata_is_mapping \<lparr>metadata = None\<rparr>"
    by (simp add: metadata_is_mapping_def)
  have m2: "metadata_is_mapping
        \<lparr>metadata = Some (Json (JObject \<lparr>workspacePath = Some ''/home/user/ws'',
                                            otherKeys = [(''title'', ''demo'')]\<rparr>))\<rparr>"
    by (simp add: metadata_is_mapping_def)
  have g2: "workspace_get example_ws (Some ''t2'') = Inr (Some ''/home/user/ws'')"
    by (simp add: workspace_get_def ex_ws_threads truthy_def js_or_def JSON_parse_def
        read_workspacePath_def)
  note a = C5_bind_get [where tid = "''t1''" and st = example_ws and t = "\<lparr>metadata = None\<rparr>"
      and p = "''/home/user/app''" and ?T2.0 = "Some ''t2''" and newPath = "Some ''/home/user/app''"]
  note b = C5_bind_get [where tid = "''t2''" and st = example_ws
      and t = "\<lparr>metadata = Some (Json (JObject \<lparr>workspacePath = Some ''/home/user/ws'',
                                            otherKeys = [(''title'', ''demo'')]\<rparr>))\<rparr>"]
  from a ex_ws_threads(1) m1
  have 1: "workspace_get (snd (workspace_set example_ws (Some ''t1'') (Some ''/home/user/app'')))
        (Some ''t1'') = Inr (Some ''/home/user/app'')"
    by simp
  from b ex_ws_threads(2) m2
  have 2: "workspace_get (snd (workspace_set example_ws (Some ''t2'') None)) (Some ''t2'')
             = Inr None"
    by simp
  from a g2
  have 3: "workspace_get (snd (workspace_set example_ws (Some ''t1'') (Some ''/home/user/app'')))
        (Some ''t2'') = Inr (Some ''/home/user/ws'')"
    by simp
  from 1 2 3 m1 m2 g2 ex_ws_threads(1) show ?thesis by simp
qed

section \<open>Properties of the file reads\<close>

lemma readFile_unfold:
  "workspace_readFile st cwd d T p =
     (case threadWorkspacePath st T of
        Inl e \<Rightarrow> (Inl e, [])
      | Inr None \<Rightarrow> (Inr (ReadFailed NoWorkspace), [])
      | Inr (Some w) \<Rightarrow>
          if w = [] then (Inr (ReadFailed NoWorkspace), [])
          else if \<not> passesSecurityCheck cwd w p then (Inr (ReadFailed AccessDenied), [])
          else
            (case fs_stat d (diskPath w p) of
               Inl e \<Rightarrow> (Inr (ReadFailed (error_message e)), [Stat (diskPath w p)])
             | Inr s \<Rightarrow>
                 if isDirectory s then (Inr (ReadFailed IsDirectory), [Stat (diskPath w p)])
                 else
                   (case fs_readFile_utf8 d (diskPath w p) of
                      Inl e \<Rightarrow> (Inr (ReadFailed (error_message e)),
                                [Stat (diskPath w p), ReadFile (diskPath w p)])
                    | Inr content \<Rightarrow> (Inr (ReadOk content (stat_size s) (mtime s)),
                                [Stat (diskPath w p), ReadFile (diskPath w p)]))))"
  by (simp add: workspace_readFile_def truthy_def NoWorkspace_def AccessDenied_def
      IsDirectory_def diskPath_def passesSecurityCheck_def Let_def
      split: option.splits sum.splits)

lemma readBinaryFile_unfold:
  "workspace_readBinaryFile st cwd d T p =
     (case threadWorkspacePath st T of
        Inl e \<Rightarrow> (Inl e, [])
      | Inr None \<Rightarrow> (Inr (ReadFailed NoWorkspace), [])
      | Inr (Some w) \<Rightarrow>
          if w = [] then (Inr (ReadFailed NoWorkspace), [])
          else if \<not> passesSecurityCheck cwd w p then (Inr (ReadFailed AccessDenied), [])
          else
            (case fs_stat d (diskPath w p) of
               Inl e \<Rightarrow> (Inr (ReadFailed (error_message e)), [Stat (diskPath w p)])
             | Inr s \<Rightarrow>
                 if isDirectory s then (Inr (ReadFailed IsDirectory), [Stat (diskPath w p)])
                 else
                   (case fs_readFile d (diskPath w p) of
                      Inl e \<Rightarrow> (Inr (ReadFailed (error_message e)),
                                [Stat (diskPath w p), ReadFile (diskPath w p)])
                    | Inr buffer \<Rightarrow> (Inr (ReadOk (toBase64 buffer) (stat_size s) (mtime s)),
                                [Stat (diskPath w p), ReadFile (diskPath w p)]))))"
  by (simp add: workspace_readBinaryFile_def truthy_def NoWorkspace_def AccessDenied_def
      IsDirectory_def diskPath_def passesSecurityCheck_def Let_def
      split: option.splits sum.splits)

text \<open>
  Claim C10. For a path \<open>p\<close> that does not start with a slash, the read handlers treat
  \<open>p\<close> and \<open>/p\<close> alike: the one leading slash is removed before the join onto the root,
  both forms give the same disk path, and \<open>workspace:readFile\<close> and
  \<open>workspace:readBinaryFile\<close> return the same result and make the same disk calls.
\<close>

theorem C10_leading_slash:
  "\<not> startsWith p ''/'' \<Longrightarrow>
   diskPath w (''/'' @ p) = diskPath w p
   \<and> workspace_readFile st cwd d T (''/'' @ p) = workspace_readFile st cwd d T p
   \<and> workspace_readBinaryFile st cwd d T (''/'' @ p) = workspace_readBinaryFile st cwd d T p"
proof -
  assume a: "\<not> startsWith p ''/''"
  have dp: "diskPath r (CHR ''/'' # p) = diskPath r p" for r
    using a by (simp add: diskPath_def startsWith_def)
  have sc: "passesSecurityCheck c r (CHR ''/'' # p) = passesSecurityCheck c r p" for c r
    by (simp add: passesSecurityCheck_def dp)
  show ?thesis
    unfolding readFile_unfold readBinaryFile_unfold append_Cons append_Nil dp sc by simp
qed

lemma ex_ws_t2: "threadWorkspacePath example_ws ''t2'' = Inr (Some ''/home/user/ws'')"
  by (simp add: threadWorkspacePath_def getThread_def example_ws_def JSON_parse_def
      read_workspacePath_def)

lemma ex_diskPath_file: "diskPath ''/home/user/ws'' ''file.txt'' = ''/home/user/ws/file.txt''"
  by (simp add: diskPath_def startsWith_def path_join_def path_normalize_def endsWith_def
      suffix_to_prefix normalizeString_def split_on_def)

lemma ex_resolve_ws: "path_resolve ''/'' ''/home/user/ws'' = ''/home/user/ws''"
  by (simp add: path_resolve_def startsWith_def normalizeString_def split_on_def)

lemma ex_resolve_file: "path_resolve ''/'' ''/home/user/ws/file.txt'' = ''/home/user/ws/file.txt''"
  by (simp add: path_resolve_def startsWith_def normalizeString_def split_on_def)

lemma ex_readFile_file:
  "workspace_readFile example_ws ''/'' example_disk ''t2'' ''file.txt''
   = (Inr (ReadOk ''hi'' 2 ''2026-01-05T10:00:00.000Z''),
      [Stat ''/home/user/ws/file.txt'', ReadFile ''/home/user/ws/file.txt''])"
  by (simp add: readFile_unfold ex_ws_t2 passesSecurityCheck_def ex_diskPath_file ex_resolve_ws
      ex_resolve_file startsWith_def example_disk_def)

text \<open>
  The theorem at \<open>file.txt\<close> in the example workspace.
\<close>

theorem C10_leading_slash_witness:
  "\<not> startsWith ''file.txt'' ''/''
   \<and> workspace_readFile example_ws ''/'' example_disk ''t2'' ''/file.txt''
     = (Inr (ReadOk ''hi'' 2 ''2026-01-05T10:00:00.000Z''),
        [Stat ''/home/user/ws/file.txt'', ReadFile ''/home/user/ws/file.txt''])"
proof -
  have a: "\<not> startsWith ''file.txt'' ''/''" by (simp add: startsWith_def)
  from C10_leading_slash [OF a, of _ example_ws "''/''" example_disk "''t2''"] a ex_readFile_file
  show ?thesis by simp
qed


lemma ex_ws_t1: "threadWorkspacePath example_ws ''t1'' = Inr None"
  by (simp add: threadWorkspacePath_def getThread_def example_ws_def empty_object_def
      read_workspacePath_def)

lemma ex_paths:
  "diskPath ''/home/user/ws'' ''/file.txt'' = ''/home/user/ws/file.txt''"
  "diskPath ''/home/user/ws'' ''/src'' = ''/home/user/ws/src''"
  "diskPath ''/home/user/ws'' ''/missing.txt'' = ''/home/user/ws/missing.txt''"
  "diskPath ''/home/user/ws'' ''/locked.txt'' = ''/home/user/ws/locked.txt''"
  "diskPath ''/home/user/ws'' ''/../ws-evil/secret.txt'' = ''/home/user/ws-evil/secret.txt''"
  "diskPath ''/home/user/ws'' ''/../../../etc/passwd'' = ''/etc/passwd''"
  by (simp_all add: diskPath_def startsWith_def path_join_def path_normalize_def endsWith_def
      suffix_to_prefix normalizeString_def split_on_def)

lemma ex_checks:
  "passesSecurityCheck ''/'' ''/home/user/ws'' ''/file.txt''"
  "passesSecurityCheck ''/'' ''/home/user/ws'' ''/src''"
  "passesSecurityCheck ''/'' ''/home/user/ws'' ''/missing.txt''"
  "passesSecurityCheck ''/'' ''/home/user/ws'' ''/locked.txt''"
  "passesSecurityCheck ''/'' ''/home/user/ws'' ''/../ws-evil/secret.txt''"
  "\<not> passesSecurityCheck ''/'' ''/home/user/ws'' ''/../../../etc/passwd''"
  by (simp_all add: passesSecurityCheck_def ex_paths path_resolve_def startsWith_def
      normalizeString_def split_on_def)

lemma error_message_JsError: "error_message (JsError m) = m"
  by (simp add: error_message_def)

lemma ex_toBase64: "toBase64 ''hi'' = ''aGk='' \<and> toBase64 ''secret'' = ''c2VjcmV0''"
  by code_simp


lemma ex_disk_simps:
  "fs_stat example_disk ''/home/user/ws/file.txt''
     = Inr \<lparr>isDirectory = False, stat_size = 2, mtime = ''2026-01-05T10:00:00.000Z''\<rparr>"
  "fs_stat example_disk ''/home/user/ws/locked.txt''
     = Inr \<lparr>isDirectory = False, stat_size = 2, mtime = ''2026-01-05T10:00:00.000Z''\<rparr>"
  "fs_stat example_disk ''/home/user/ws/src''
     = Inr \<lparr>isDirectory = True, stat_size = 4096, mtime = ''2026-01-05T10:00:00.000Z''\<rparr>"
  "fs_stat example_disk ''/home/user/ws/missing.txt''
     = Inl (JsError ''ENOENT: no such file or directory'')"
  "fs_stat example_disk ''/home/user/ws-evil/secret.txt''
     = Inr \<lparr>isDirectory = False, stat_size = 6, mtime = ''2026-01-06T11:30:00.000Z''\<rparr>"
  "fs_readFile_utf8 example_disk ''/home/user/ws/file.txt'' = Inr ''hi''"
  "fs_readFile example_disk ''/home/user/ws/file.txt'' = Inr ''hi''"
  "fs_readFile_utf8 example_disk ''/home/user/ws/locked.txt''
     = Inl (JsError ''EACCES: permission denied'')"
  "fs_readFile example_disk ''/home/user/ws/locked.txt''
     = Inl (JsError ''EACCES: permission denied'')"
  "fs_readFile_utf8 example_disk ''/home/user/ws-evil/secret.txt'' = Inr ''secret''"
  "fs_readFile example_disk ''/home/user/ws-evil/secret.txt'' = Inr ''secret''"
  by (simp_all add: example_disk_def)

lemma reads_return_when_metadata_parses:
  assumes "threadWorkspacePath st T = Inr wp"
  shows "\<exists>r. fst (workspace_readFile st cwd d T p) = Inr r"
    and "\<exists>r. fst (workspace_readBinaryFile st cwd d T p) = Inr r"
  using assms
  by (auto simp: readFile_unfold readBinaryFile_unfold split: option.splits sum.splits)



lemma read_denied_when_check_fails:
  assumes "threadWorkspacePath st T = Inr (Some w)" "w \<noteq> []"
    "\<not> passesSecurityCheck cwd w p"
  shows "workspace_readFile st cwd d T p = (Inr (ReadFailed AccessDenied), [])"
    and "workspace_readBinaryFile st cwd d T p = (Inr (ReadFailed AccessDenied), [])"
  using assms by (simp_all add: readFile_unfold readBinaryFile_unfold)

lemma ex_resolved:
  "path_resolve ''/'' ''/home/user/ws-evil/secret.txt'' = ''/home/user/ws-evil/secret.txt''"
  by (simp add: path_resolve_def startsWith_def normalizeString_def split_on_def)

lemma ex_not_within: "\<not> spec_within_root ''/home/user/ws'' ''/home/user/ws-evil/secret.txt''"
  by (simp add: spec_within_root_def path_segments_def split_on_def)

text \<open>
  Claim C1 at the root \<open>/home/user/ws\<close> and the virtual path \<open>/../ws-evil/secret.txt\<close>. The
  resolved path \<open>/home/user/ws-evil/secret.txt\<close> is neither the root nor a descendant of
  it, yet it starts with the characters of the resolved root, so the security check
  passes: both handlers call \<open>stat\<close> and read the file, and return its content.
\<close>

theorem C1_prefix_check_admits_sibling:
  "threadWorkspacePath example_ws ''t2'' = Inr (Some ''/home/user/ws'')
   \<and> path_resolve ''/'' ''/home/user/ws'' = ''/home/user/ws''
   \<and> path_resolve ''/'' (diskPath ''/home/user/ws'' ''/../ws-evil/secret.txt'')
       = ''/home/user/ws-evil/secret.txt''
   \<and> \<not> spec_within_root ''/home/user/ws'' ''/home/user/ws-evil/secret.txt''
   \<and> workspace_readFile example_ws ''/'' example_disk ''t2'' ''/../ws-evil/secret.txt''
       = (Inr (ReadOk ''secret'' 6 ''2026-01-06T11:30:00.000Z''),
          [Stat ''/home/user/ws-evil/secret.txt'', ReadFile ''/home/user/ws-evil/secret.txt''])
   \<and> workspace_readBinaryFile example_ws ''/'' example_disk ''t2'' ''/../ws-evil/secret.txt''
       = (Inr (ReadOk ''c2VjcmV0'' 6 ''2026-01-06T11:30:00.000Z''),
          [Stat ''/home/user/ws-evil/secret.txt'', ReadFile ''/home/user/ws-evil/secret.txt''])"
  using ex_toBase64
  by (simp add: ex_ws_t2 ex_resolve_ws ex_paths ex_resolved ex_not_within readFile_unfold
      readBinaryFile_unfold ex_checks ex_disk_simps)

section \<open>Properties of the directory snapshot\<close>

lemma split_where_append:
  "sep c \<Longrightarrow> split_where sep (xs @ c # ys) = split_where sep xs @ split_where sep ys"
proof (induction xs)
  case Nil
  then show ?case by simp
next
  case (Cons x xs)
  then show ?case
    using split_where_not_Nil [of sep xs] by (auto split: list.splits)
qed

lemma split_where_no_separator:
  "\<forall>x \<in> set s. \<not> sep x \<Longrightarrow> split_where sep s = [s]"
  by (induction s) auto

lemma components_relPathOf:
  assumes "CHR ''/'' \<notin> set nm"
  shows "set (split_on CHR ''/'' (relPathOf rel nm)) \<subseteq> set (split_on CHR ''/'' rel) \<union> {nm}"
proof -
  have one: "split_on CHR ''/'' nm = [nm]"
    unfolding split_on_def using assms by (intro split_where_no_separator) auto
  show ?thesis
  proof (cases "rel = []")
    case True
    then show ?thesis by (simp add: relPathOf_def one)
  next
    case False
    have "split_on CHR ''/'' (rel @ CHR ''/'' # nm)
            = split_on CHR ''/'' rel @ split_on CHR ''/'' nm"
      unfolding split_on_def by (rule split_where_append) simp
    with False show ?thesis by (simp add: relPathOf_def one)
  qed
qed

lemma clean_relPathOf:
  "CHR ''/'' \<notin> set nm \<Longrightarrow> \<not> skipped nm \<Longrightarrow> clean_path rel \<Longrightarrow> clean_path (relPathOf rel nm)"
  using components_relPathOf [of nm rel] by (auto simp: clean_path_def list_all_iff)

lemma clean_empty: "clean_path []"
  by (simp add: clean_path_def split_on_def skipped_def startsWith_def)


lemma readDir_clean:
  "names_without_slash l \<Longrightarrow> clean_path rel \<Longrightarrow> list_all (\<lambda>f. clean_path (drop 1 (path f))) files
     \<Longrightarrow> readDir l rel files = Inr fs \<Longrightarrow> list_all (\<lambda>f. clean_path (drop 1 (path f))) fs"
  "entries_without_slash es \<Longrightarrow> clean_path rel \<Longrightarrow> list_all (\<lambda>f. clean_path (drop 1 (path f))) files
     \<Longrightarrow> readEntries es rel files = Inr fs \<Longrightarrow> list_all (\<lambda>f. clean_path (drop 1 (path f))) fs"
proof (induction l rel files and es rel files arbitrary: fs and fs rule: readDir_readEntries.induct)
  case (1 e relativePath files)
  from "1.prems"(4) show ?case by simp
next
  case (2 entries relativePath files)
  from "2.prems"(1) have w: "entries_without_slash entries" by simp
  from "2.prems"(4) have r: "readEntries entries relativePath files = Inr fs" by simp
  from "2.IH" [OF w "2.prems"(2) "2.prems"(3) r] show ?case .
next
  case (3 relativePath files)
  from "3.prems"(3) "3.prems"(4) show ?case by simp
next
  case (4 nm sub rest relativePath files)
  from "4.prems"(1) have w: "CHR ''/'' \<notin> set nm" "names_without_slash sub"
    "entries_without_slash rest"
    by simp_all
  show ?case
  proof (cases "skipped nm")
    case True
    with "4.prems"(4) have r: "readEntries rest relativePath files = Inr fs" by simp
    from "4.IH"(1) [OF True w(3) "4.prems"(2) "4.prems"(3) r] show ?thesis .
  next
    case False
    let ?files1 = "files @ [\<lparr>path = ''/'' @ relPathOf relativePath nm, is_dir = True,
                         file_size = None, modified_at = None\<rparr>]"
    from "4.prems"(4) False obtain files' where
      sub: "readDir sub (relPathOf relativePath nm) ?files1 = Inr files'"
      and rest: "readEntries rest relativePath files' = Inr fs"
      by (cases "readDir sub (relPathOf relativePath nm) ?files1") simp_all
    have cl: "clean_path (relPathOf relativePath nm)"
      using clean_relPathOf [OF w(1) False "4.prems"(2)] .
    have f1: "list_all (\<lambda>f. clean_path (drop 1 (path f))) ?files1"
      using "4.prems"(3) cl by simp
    have f': "list_all (\<lambda>f. clean_path (drop 1 (path f))) files'"
      using "4.IH"(2) [OF False w(2) cl f1 sub] .
    from "4.IH"(3) [OF False sub w(3) "4.prems"(2) f' rest] show ?thesis .
  qed
next
  case (5 nm st rest relativePath files)
  from "5.prems"(1) have w: "CHR ''/'' \<notin> set nm" "entries_without_slash rest"
    by simp_all
  show ?case
  proof (cases "skipped nm")
    case True
    with "5.prems"(4) have r: "readEntries rest relativePath files = Inr fs" by simp
    from "5.IH"(1) [OF True w(2) "5.prems"(2) "5.prems"(3) r] show ?thesis .
  next
    case False
    from "5.prems"(4) False obtain s where s: "st = Inr s"
      by (cases st) simp_all
    let ?files1 = "files @ [\<lparr>path = ''/'' @ relPathOf relativePath nm, is_dir = False,
                          file_size = Some (stat_size s), modified_at = Some (mtime s)\<rparr>]"
    from "5.prems"(4) False s have rest: "readEntries rest relativePath ?files1 = Inr fs"
      by simp
    have cl: "clean_path (relPathOf relativePath nm)"
      using clean_relPathOf [OF w(1) False "5.prems"(2)] .
    have f1: "list_all (\<lambda>f. clean_path (drop 1 (path f))) ?files1"
      using "5.prems"(3) cl by simp
    from "5.IH"(2) [OF False s w(2) "5.prems"(2) f1 rest] show ?thesis .
  qed
qed


lemma readDir_without_skipped:
  "readDir (without_skipped l) rel files = readDir l rel files"
  "readEntries (entries_without_skipped es) rel files = readEntries es rel files"
proof (induction l rel files and es rel files rule: readDir_readEntries.induct)
  case (1 e relativePath files)
  show ?case by simp
next
  case (2 entries relativePath files)
  then show ?case by simp
next
  case (3 relativePath files)
  show ?case by simp
next
  case (4 nm sub rest relativePath files)
  show ?case
  proof (cases "skipped nm")
    case True
    with "4.IH"(1) show ?thesis by simp
  next
    case False
    let ?files1 = "files @ [\<lparr>path = ''/'' @ relPathOf relativePath nm, is_dir = True,
                         file_size = None, modified_at = None\<rparr>]"
    have a: "readDir (without_skipped sub) (relPathOf relativePath nm) ?files1
               = readDir sub (relPathOf relativePath nm) ?files1"
      using "4.IH"(2) [OF False] .
    show ?thesis
    proof (cases "readDir sub (relPathOf relativePath nm) ?files1")
      case (Inl e)
      with False a show ?thesis by simp
    next
      case (Inr files')
      from "4.IH"(3) [OF False Inr]
      have "readEntries (entries_without_skipped rest) relativePath files'
              = readEntries rest relativePath files'" .
      with False a Inr show ?thesis by simp
    qed
  qed
next
  case (5 nm st rest relativePath files)
  show ?case
  proof (cases "skipped nm")
    case True
    with "5.IH"(1) show ?thesis by simp
  next
    case False
    show ?thesis
    proof (cases st)
      case (Inl e)
      with False show ?thesis by simp
    next
      case (Inr s)
      from "5.IH"(2) [OF False Inr] False Inr show ?thesis by simp
    qed
  qed
qed

lemma components_clean:
  "list_all (\<lambda>f. clean_path (drop 1 (path f))) fs
     = (\<forall>f \<in> set fs. \<forall>c \<in> set (components (path f)). \<not> skipped c)"
  by (simp add: clean_path_def components_def list_all_iff)

text \<open>
  Claim C7. An entry is skipped when its name starts with a dot or is \<open>node_modules\<close>. A
  skipped entry, file or directory, adds nothing to the walk and a skipped directory
  is not entered: the walk of a tree is the walk of the tree without its skipped
  entries at every depth, whatever those entries hold, and so is the snapshot
  \<open>workspace:loadFromDisk\<close> returns. Hence, for a tree whose names hold no slash, no
  component of a returned virtual path is a skipped name.
\<close>

theorem C7_snapshot_excludes_hidden:
  "skipped nm = (startsWith nm ''.'' \<or> nm = ''node_modules'')
   \<and> (skipped nm \<longrightarrow>
        readEntries (DirEntry nm sub # rest) rel files = readEntries rest rel files
        \<and> readEntries (FileEntry nm s # rest) rel files = readEntries rest rel files)
   \<and> readDir (without_skipped l) rel files = readDir l rel files
   \<and> workspace_loadFromDisk st (\<lambda>root. without_skipped (readdir root)) T
       = workspace_loadFromDisk st readdir T
   \<and> (workspace_loadFromDisk st readdir T = Inr (SnapshotOk fs root)
        \<and> names_without_slash (readdir root) \<longrightarrow>
        (\<forall>f \<in> set fs. \<forall>c \<in> set (components (path f)). \<not> skipped c))"
proof (intro conjI impI)
  show "skipped nm = (startsWith nm ''.'' \<or> nm = ''node_modules'')"
    by (simp add: skipped_def)
  show "readEntries (DirEntry nm sub # rest) rel files = readEntries rest rel files"
    if "skipped nm" using that by simp
  show "readEntries (FileEntry nm s # rest) rel files = readEntries rest rel files"
    if "skipped nm" using that by simp
  show "readDir (without_skipped l) rel files = readDir l rel files"
    by (rule readDir_without_skipped)
  show "workspace_loadFromDisk st (\<lambda>root. without_skipped (readdir root)) T
       = workspace_loadFromDisk st readdir T"
    unfolding workspace_loadFromDisk_def readDir_without_skipped ..
  show "\<forall>f \<in> set fs. \<forall>c \<in> set (components (path f)). \<not> skipped c"
    if h: "workspace_loadFromDisk st readdir T = Inr (SnapshotOk fs root)
        \<and> names_without_slash (readdir root)"
  proof -
    from h have r: "readDir (readdir root) [] [] = Inr fs"
      by (auto simp: workspace_loadFromDisk_def split: if_splits sum.splits)
    from h have w: "names_without_slash (readdir root)" by simp
    have "list_all (\<lambda>f. clean_path (drop 1 (path f))) fs"
      using readDir_clean(1) [OF w clean_empty _ r] by simp
    then show ?thesis unfolding components_clean .
  qed
qed

lemma example_tree_read:
  "readDir example_tree [] []
   = Inr [\<lparr>path = ''/file.txt'', is_dir = False, file_size = Some 2,
           modified_at = Some ''2026-01-05T10:00:00.000Z''\<rparr>,
          \<lparr>path = ''/src'', is_dir = True, file_size = None, modified_at = None\<rparr>,
          \<lparr>path = ''/src/a.ts'', is_dir = False, file_size = Some 5,
           modified_at = Some ''2026-01-05T10:00:00.000Z''\<rparr>]"
  by (simp add: example_tree_def skipped_def startsWith_def relPathOf_def)

lemma example_tree_names: "names_without_slash example_tree"
  by (simp add: example_tree_def)

text \<open>
  The theorem at the example tree, whose \<open>.git\<close> directory cannot be read and whose
  \<open>src\<close> directory holds a hidden file and a \<open>node_modules\<close> directory.
\<close>

theorem C7_snapshot_excludes_hidden_witness:
  "skipped ''.git'' \<and> skipped ''node_modules''
   \<and> names_without_slash example_tree
   \<and> workspace_loadFromDisk example_ws (\<lambda>root. example_tree) ''t2''
       = Inr (SnapshotOk
           [\<lparr>path = ''/file.txt'', is_dir = False, file_size = Some 2,
             modified_at = Some ''2026-01-05T10:00:00.000Z''\<rparr>,
            \<lparr>path = ''/src'', is_dir = True, file_size = None, modified_at = None\<rparr>,
            \<lparr>path = ''/src/a.ts'', is_dir = False, file_size = Some 5,
             modified_at = Some ''2026-01-05T10:00:00.000Z''\<rparr>]
           ''/home/user/ws'')
   \<and> readEntries [DirEntry ''.git'' (Unreadable (JsError ''EACCES: permission denied''))] [] []
       = Inr []
   \<and> \<not> skipped ''src'' \<and> \<not> skipped ''a.ts''
   \<and> components ''/src/a.ts'' = [''src'', ''a.ts'']"
proof -
  have sk: "skipped ''.git''" "skipped ''node_modules''" "\<not> skipped ''src''"
    by (simp_all add: skipped_def startsWith_def)
  have comp: "components ''/src/a.ts'' = [''src'', ''a.ts'']"
    by (simp add: components_def split_on_def)
  have load: "workspace_loadFromDisk example_ws (\<lambda>root. example_tree) ''t2''
       = Inr (SnapshotOk
           [\<lparr>path = ''/file.txt'', is_dir = False, file_size = Some 2,
             modified_at = Some ''2026-01-05T10:00:00.000Z''\<rparr>,
            \<lparr>path = ''/src'', is_dir = True, file_size = None, modified_at = None\<rparr>,
            \<lparr>path = ''/src/a.ts'', is_dir = False, file_size = Some 5,
             modified_at = Some ''2026-01-05T10:00:00.000Z''\<rparr>]
           ''/home/user/ws'')"
    by (simp add: workspace_loadFromDisk_def ex_ws_t2 truthy_def example_tree_read)
  note a = C7_snapshot_excludes_hidden [where nm = "''.git''"
      and sub = "Unreadable (JsError ''EACCES: permission denied'')" and rest = "[]"
      and rel = "[]" and files = "[]"
      and st = example_ws and readdir = "\<lambda>root. example_tree" and T = "''t2''"
      and root = "''/home/user/ws''"
      and fs = "[\<lparr>path = ''/file.txt'', is_dir = False, file_size = Some 2,
             modified_at = Some ''2026-01-05T10:00:00.000Z''\<rparr>,
            \<lparr>path = ''/src'', is_dir = True, file_size = None, modified_at = None\<rparr>,
            \<lparr>path = ''/src/a.ts'', is_dir = False, file_size = Some 5,
             modified_at = Some ''2026-01-05T10:00:00.000Z''\<rparr>]"]
  from a sk(1)
  have 1: "readEntries [DirEntry ''.git'' (Unreadable (JsError ''EACCES: permission denied''))]
             [] [] = Inr []"
    by simp
  from a load example_tree_names
  have "\<forall>c \<in> set (components ''/src/a.ts''). \<not> skipped c"
    by simp
  with comp have 2: "\<not> skipped ''a.ts''" by simp
  from sk comp load example_tree_names 1 2 show ?thesis by blast
qed

end
